theory Spec2Isabelle
  imports Complex_Main
begin

section \<open>Numbers\<close>

text \<open>
  The engine is JavaScript. Sample intensities and conditioned signals are modelled by
  \<^typ>\<open>real\<close>, beats per minute and millisecond time stamps by \<^typ>\<open>int\<close>, array indices,
  lengths and the counters that only count up from zero by \<^typ>\<open>nat\<close>.
  \<open>Math.round\<close> rounds to the nearest integer, a half going up.
\<close>

definition js_round :: "real \<Rightarrow> int" where
  "js_round x = \<lfloor>x + 1 / 2\<rfloor>"

section \<open>Double-precision arithmetic\<close>

text \<open>
  A JavaScript number is an IEEE 754 double, and every operation returns the double
  nearest to the exact result, a tie going to the even significand. The binade of a
  nonzero \<open>x\<close> is the \<open>e\<close> with \<open>2^e <= |x| < 2^(e+1)\<close>, found by halving or doubling.
\<close>

function halvings :: "real \<Rightarrow> int \<Rightarrow> int" where
  "halvings x e = (if 2 \<le> x then halvings (x / 2) (e + 1) else e)"
  by pat_completeness auto
termination
proof (relation "measure (\<lambda>(x, e). nat \<lceil>x\<rceil>)")
  show "wf (measure (\<lambda>(x, e). nat \<lceil>x\<rceil>))" by simp
next
  fix x :: real and e :: int
  assume "2 \<le> x"
  then have "x / 2 \<le> real_of_int (\<lceil>x\<rceil> - 1)" and "0 < \<lceil>x\<rceil>"
    by linarith+
  then have "\<lceil>x / 2\<rceil> < \<lceil>x\<rceil>" and "0 < \<lceil>x\<rceil>"
    by (simp_all add: ceiling_less_iff)
  then show "((x / 2, e + 1), (x, e)) \<in> measure (\<lambda>(x, e). nat \<lceil>x\<rceil>)"
    by (simp add: zless_nat_conj)
qed

function doublings :: "real \<Rightarrow> int \<Rightarrow> int" where
  "doublings x e = (if 0 < x \<and> x < 1 then doublings (2 * x) (e - 1) else e)"
  by pat_completeness auto
termination
proof (relation "measure (\<lambda>(x, e). nat \<lceil>1 / x\<rceil>)")
  show "wf (measure (\<lambda>(x, e). nat \<lceil>1 / x\<rceil>))" by simp
next
  fix x :: real and e :: int
  assume x: "0 < x \<and> x < 1"
  define y where "y = 1 / x"
  have y: "1 < y" using x by (simp add: y_def)
  have half: "1 / (2 * x) = y / 2" by (simp add: y_def)
  have "y / 2 \<le> real_of_int (\<lceil>y\<rceil> - 1)"
  proof (cases "2 \<le> y")
    case True
    then show ?thesis by linarith
  next
    case False
    then have "\<lceil>y\<rceil> = 2" using y by (simp add: ceiling_eq_iff)
    then show ?thesis using False by simp
  qed
  then have "\<lceil>y / 2\<rceil> < \<lceil>y\<rceil>"
    by (simp add: ceiling_less_iff)
  moreover have "0 < \<lceil>y\<rceil>" using y by linarith
  ultimately show "((2 * x, e - 1), (x, e)) \<in> measure (\<lambda>(x, e). nat \<lceil>1 / x\<rceil>)"
    by (simp add: half y_def [symmetric] zless_nat_conj)
qed

definition binade :: "real \<Rightarrow> int" where
  "binade x = (if 1 \<le> \<bar>x\<bar> then halvings \<bar>x\<bar> 0 else doublings \<bar>x\<bar> 0)"

definition pow2 :: "int \<Rightarrow> real" where
  "pow2 k = (if 0 \<le> k then 2 ^ nat k else 1 / 2 ^ nat (- k))"

text \<open>Rounding to the nearest integer, a tie going to the even one.\<close>

definition roundEven :: "real \<Rightarrow> int" where
  "roundEven y =
     (let f = \<lfloor>y\<rfloor>; d = y - real_of_int f
      in if d < 1 / 2 then f else if 1 / 2 < d then f + 1 else if even f then f else f + 1)"

text \<open>
  The double nearest to \<open>x\<close>: a multiple of \<open>2^(e - 52)\<close> for the binade \<open>e\<close> of \<open>x\<close>, and
  of \<open>2^(-1074)\<close> below the normal range. Overflow to \<open>Infinity\<close> (from \<open>2^1024\<close> on) is not
  modelled.
\<close>

definition fl :: "real \<Rightarrow> real" where
  "fl x = (if x = 0 then 0
           else (let q = pow2 (max (binade x) (- 1022) - 52)
                 in real_of_int (roundEven (x / q)) * q))"

text \<open>The four operations; a decimal literal \<open>c\<close> of the source is \<open>fl c\<close>.\<close>

definition fadd :: "real \<Rightarrow> real \<Rightarrow> real" where
  "fadd x y = fl (x + y)"

definition fsub :: "real \<Rightarrow> real \<Rightarrow> real" where
  "fsub x y = fl (x - y)"

definition fmul :: "real \<Rightarrow> real \<Rightarrow> real" where
  "fmul x y = fl (x * y)"

definition fdiv :: "real \<Rightarrow> real \<Rightarrow> real" where
  "fdiv x y = fl (x / y)"

text \<open>
  The model computes with these operations in the signal conditioning, the initial
  correction, the blend of median and reading, and the display smoothing of the advanced
  module. The other quotients and products (the contact percentage, the thresholds of the
  peak detection, the three rate methods, the mean of the recent readings, the required
  streak) are computed exactly.
\<close>

section \<open>Peak detection (\<open>detectPeaks\<close>)\<close>

definition minPeakDistance :: int where
  "minPeakDistance = 38"

text \<open>The test of both scans: a strict maximum among two neighbours on each side.\<close>

definition localMax :: "real list \<Rightarrow> nat \<Rightarrow> bool" where
  "localMax f i \<longleftrightarrow>
     f ! i > f ! (i - 1) \<and> f ! i > f ! (i - 2) \<and> f ! i > f ! (i + 1) \<and> f ! i > f ! (i + 2)"

text \<open>
  The first scan, \<open>for (let i = 2; i < filteredSignal.length - 2; i++)\<close>, carrying the
  array \<open>peaks\<close> and \<open>lastPeakIndex\<close>.
\<close>

function scanPeaks :: "real list \<Rightarrow> real \<Rightarrow> nat \<Rightarrow> nat list \<times> int \<Rightarrow> nat list \<times> int" where
  "scanPeaks f threshold i (peaks, lastPeakIndex) =
     (if i + 2 < length f then
        (if localMax f i \<and> f ! i > threshold \<and> int i - lastPeakIndex \<ge> minPeakDistance
         then scanPeaks f threshold (i + 1) (peaks @ [i], int i)
         else scanPeaks f threshold (i + 1) (peaks, lastPeakIndex))
      else (peaks, lastPeakIndex))"
  by pat_completeness auto
termination
  by (relation "measure (\<lambda>(f, t, i, p). length f - i)") auto

text \<open>The retry scan: the same loop, skipping an index that is a peak already.\<close>

function rescanPeaks :: "real list \<Rightarrow> real \<Rightarrow> nat \<Rightarrow> nat list \<times> int \<Rightarrow> nat list \<times> int" where
  "rescanPeaks f lowerThreshold i (peaks, lastPeakIndex) =
     (if i + 2 < length f then
        (if i \<in> set peaks then rescanPeaks f lowerThreshold (i + 1) (peaks, lastPeakIndex)
         else if localMax f i \<and> f ! i > lowerThreshold
                 \<and> int i - lastPeakIndex \<ge> minPeakDistance
         then rescanPeaks f lowerThreshold (i + 1) (peaks @ [i], int i)
         else rescanPeaks f lowerThreshold (i + 1) (peaks, lastPeakIndex))
      else (peaks, lastPeakIndex))"
  by pat_completeness auto
termination
  by (relation "measure (\<lambda>(f, t, i, p). length f - i)") auto

text \<open>
  \<open>detectPeaks\<close>. The signal sorted descending is \<open>rev (sort f)\<close>; the index
  \<open>Math.floor(length * 0.25)\<close> is \<open>length f div 4\<close>. On the empty signal the base is
  \<open>undefined\<close>, no loop runs and the test \<open>thresholdBase > 0\<close> fails: the result is empty.
\<close>

definition detectPeaks :: "real list \<Rightarrow> nat list" where
  "detectPeaks filteredSignal =
     (if filteredSignal = [] then []
      else
        let sortedSignal = rev (sort filteredSignal);
            thresholdBase = sortedSignal ! (length sortedSignal div 4);
            threshold = thresholdBase * 0.5;
            first = scanPeaks filteredSignal threshold 2 ([], - minPeakDistance)
        in if length (fst first) < 3 \<and> thresholdBase > 0
           then sort (fst (rescanPeaks filteredSignal (thresholdBase * 0.2) 2 first))
           else fst first)"

section \<open>Signal conditioning (\<open>filterSignal\<close>)\<close>

text \<open>
  The inner loop of both smoothing passes: \<open>j\<close> runs from \<open>Math.max(0, i - w)\<close> to
  \<open>Math.min(length - 1, i + w)\<close>, adding \<open>xs[j]\<close> to \<open>sum\<close> and one to \<open>count\<close>. The sums
  are accumulated from the left, each addition rounding.
\<close>

definition windowMean :: "nat \<Rightarrow> real list \<Rightarrow> nat \<Rightarrow> real" where
  "windowMean w xs i =
     (let lo = i - w;
          hi = min (length xs - 1) (i + w)
      in fdiv (fold (\<lambda>j sum. fadd sum (xs ! j)) [lo..<Suc hi] 0) (real (Suc hi - lo)))"

definition movingAverage :: "nat \<Rightarrow> real list \<Rightarrow> real list" where
  "movingAverage w xs = map (windowMean w xs) [0..<length xs]"

definition filterSignal :: "real list \<Rightarrow> real list" where
  "filterSignal ppgData =
     (let mean = fdiv (fold (\<lambda>val sum. fadd sum val) ppgData 0) (real (length ppgData));
          normalized = map (\<lambda>val. fsub val mean) ppgData;
          smoothed = movingAverage 5 normalized;
          derivative =
            0 # map (\<lambda>i. fsub (smoothed ! i) (smoothed ! (i - 1))) [1..<length smoothed];
          squared = map (\<lambda>val. fmul val val) derivative
      in movingAverage 8 squared)"

section \<open>Engine state and result records\<close>

text \<open>The module-level variables of the engine, as one record.\<close>

record engine =
  recentHeartRates :: "int list"
  sampleBuffer :: "real list"
  batchesReceived :: nat
  fingerDetectedState :: bool
  lastDisplayedValue :: string
  lastDisplayedHeartRate :: int
  consecutiveLowSignalBatches :: nat
  consecutiveHighZoneReadings :: nat
  isAcquiring :: bool
  acquisitionStartTime :: int
  isStable :: bool
  firstDisplayTime :: int

text \<open>The state of a freshly loaded module.\<close>

definition initialEngine :: engine where
  "initialEngine =
     \<lparr>recentHeartRates = [], sampleBuffer = [], batchesReceived = 0,
      fingerDetectedState = False, lastDisplayedValue = ''No signal'',
      lastDisplayedHeartRate = 0, consecutiveLowSignalBatches = 0,
      consecutiveHighZoneReadings = 0, isAcquiring = False, acquisitionStartTime = 0,
      isStable = False, firstDisplayTime = 0\<rparr>"

definition MAX_HISTORY :: nat where "MAX_HISTORY = 4"
definition MAX_BUFFER_SIZE :: nat where "MAX_BUFFER_SIZE = 1000"
definition MIN_BATCHES_FOR_DISPLAY :: nat where "MIN_BATCHES_FOR_DISPLAY = 5"
definition MIN_HIGH_ZONE_STREAK :: nat where "MIN_HIGH_ZONE_STREAK = 5"
definition VIGOROUS_THRESHOLD :: int where "VIGOROUS_THRESHOLD = 130"
definition INITIAL_PERIOD_DURATION :: int where "INITIAL_PERIOD_DURATION = 30000"

record zone_entry =
  name :: string
  color :: string
  upperLimit :: int
  colorCode :: string

definition HR_ZONES :: "zone_entry list" where
  "HR_ZONES =
     [\<lparr>name = ''Rest'', color = ''#3498db'', upperLimit = 90, colorCode = ''#3498db''\<rparr>,
      \<lparr>name = ''Light'', color = ''#2ecc71'', upperLimit = 110, colorCode = ''#2ecc71''\<rparr>,
      \<lparr>name = ''Moderate'', color = ''#f1c40f'', upperLimit = 130, colorCode = ''#f1c40f''\<rparr>,
      \<lparr>name = ''Vigorous'', color = ''#e67e22'', upperLimit = 150, colorCode = ''#e67e22''\<rparr>,
      \<lparr>name = ''High'', color = ''#e74c3c'', upperLimit = 170, colorCode = ''#e74c3c''\<rparr>,
      \<lparr>name = ''Maximum'', color = ''#9b59b6'', upperLimit = 240, colorCode = ''#9b59b6''\<rparr>]"

text \<open>The \<open>debug\<close> object of a full result; the early returns pass none.\<close>

record debug_info =
  dbg_signalMax :: real
  dbg_bufferSize :: nat
  dbg_peakCount :: nat
  dbg_calculatedRate :: int
  dbg_finalRate :: int
  dbg_recentRates :: "int list"
  dbg_stable :: bool
  dbg_batchesReceived :: nat
  dbg_inAcquisitionPhase :: bool
  dbg_percentBelowThreshold :: real
  dbg_consecutiveLowSignalBatches :: nat
  dbg_isHighRate :: bool
  dbg_consecutiveHighZoneReadings :: nat
  dbg_timeSinceFirstDisplay :: int

record response =
  heartRate :: int
  fingerDetected :: bool
  display_value :: string
  display_details :: string
  zone :: string
  zoneColor :: string
  quality :: real
  confidence :: real
  trend :: string
  phase :: string
  debug :: "debug_info option"

text \<open>
  \<open>createResponse\<close> reads the globals \<open>batchesReceived\<close> and \<open>isStable\<close> for the phase, so
  the model passes it the engine.
\<close>

definition createResponse ::
  "engine \<Rightarrow> int \<Rightarrow> bool \<Rightarrow> string \<Rightarrow> string \<Rightarrow> string \<Rightarrow> string \<Rightarrow> string
     \<Rightarrow> debug_info option \<Rightarrow> response" where
  "createResponse s rate finger displayValue displayDetails zoneName zoneColour trnd dbg =
     \<lparr>heartRate = rate,
      fingerDetected = finger,
      display_value = displayValue,
      display_details = displayDetails,
      zone = zoneName,
      zoneColor = zoneColour,
      quality = (if finger then 0.8 else 0),
      confidence = (if finger then 0.8 else 0),
      trend = trnd,
      phase = (if finger
               then (if batchesReceived s < MIN_BATCHES_FOR_DISPLAY then ''acquiring''
                     else if isStable s then ''tracking'' else ''stabilizing'')
               else ''no_signal''),
      debug = dbg\<rparr>"

text \<open>The call with every optional parameter left at its default.\<close>

definition noSignalResponse :: "engine \<Rightarrow> response" where
  "noSignalResponse s =
     createResponse s 0 False ''No signal'' ''Place finger on sensor''
       ''Rest'' ''#3498db'' ''stable'' None"

definition resetState :: "engine \<Rightarrow> engine" where
  "resetState s =
     s\<lparr>isAcquiring := False, batchesReceived := 0, sampleBuffer := [],
       consecutiveLowSignalBatches := 0, fingerDetectedState := False, isStable := False,
       consecutiveHighZoneReadings := 0, firstDisplayTime := 0,
       lastDisplayedHeartRate := 0\<rparr>"

section \<open>Contact detection and acquisition\<close>

definition percentBelowThreshold :: "real list \<Rightarrow> real" where
  "percentBelowThreshold ppgData =
     real (length (filter (\<lambda>val. val \<le> 18000) ppgData)) / real (length ppgData) * 100"

definition currentBatchHasFinger :: "real list \<Rightarrow> bool" where
  "currentBatchHasFinger ppgData \<longleftrightarrow> percentBelowThreshold ppgData < 70"

text \<open>The low-signal counter, then the finger state.\<close>

definition detectFinger :: "engine \<Rightarrow> real list \<Rightarrow> engine" where
  "detectFinger s ppgData =
     (let s1 = (if \<not> currentBatchHasFinger ppgData
                then s\<lparr>consecutiveLowSignalBatches := consecutiveLowSignalBatches s + 1\<rparr>
                else s\<lparr>consecutiveLowSignalBatches := 0\<rparr>)
      in if currentBatchHasFinger ppgData then s1\<lparr>fingerDetectedState := True\<rparr>
         else if consecutiveLowSignalBatches s1 \<ge> 2 then s1\<lparr>fingerDetectedState := False\<rparr>
         else s1)"

text \<open>The branch \<open>if (!isAcquiring)\<close>: the start of a new acquisition.\<close>

definition startAcquisition :: "engine \<Rightarrow> int \<Rightarrow> engine" where
  "startAcquisition s currentTime =
     (if \<not> isAcquiring s
      then s\<lparr>isAcquiring := True, acquisitionStartTime := currentTime, isStable := False,
             batchesReceived := 0, sampleBuffer := [], consecutiveHighZoneReadings := 0,
             firstDisplayTime := 0\<rparr>
      else s)"

text \<open>A batch with a good signal is counted and appended; the window keeps its last 1000.\<close>

definition appendBatch :: "engine \<Rightarrow> real list \<Rightarrow> engine" where
  "appendBatch s ppgData =
     (if currentBatchHasFinger ppgData
      then (let buf = sampleBuffer s @ ppgData
            in s\<lparr>batchesReceived := batchesReceived s + 1,
                 sampleBuffer := (if length buf > MAX_BUFFER_SIZE
                                  then drop (length buf - MAX_BUFFER_SIZE) buf else buf)\<rparr>)
      else s)"

section \<open>Rate estimation\<close>

definition peakIntervals :: "nat list \<Rightarrow> int list" where
  "peakIntervals peaks = map (\<lambda>i. int (peaks ! i) - int (peaks ! (i - 1))) [1..<length peaks]"

definition validInterval :: "int \<Rightarrow> bool" where
  "validInterval interval \<longleftrightarrow> interval \<ge> 37 \<and> interval \<le> 300"

text \<open>\<open>if (heartRate < 40 || heartRate > 200) heartRate = 0\<close>.\<close>

definition plausible :: "int \<Rightarrow> int" where
  "plausible rate = (if rate < 40 \<or> rate > 200 then 0 else rate)"

text \<open>Method 1, from the intervals between peaks.\<close>

definition intervalMethod :: "nat list \<Rightarrow> int" where
  "intervalMethod peaks =
     (let validIntervals = filter validInterval (peakIntervals peaks)
      in if length validIntervals > 0
         then (let avgInterval = real_of_int (sum_list validIntervals)
                                   / real (length validIntervals)
               in plausible (js_round (60 * 150 / avgInterval)))
         else 0)"

text \<open>
  Method 2, from the span of the peaks. A span of zero samples divides by zero: JavaScript
  gives \<open>Infinity\<close>, which fails the upper bound.
\<close>

definition spanMethod :: "nat list \<Rightarrow> int" where
  "spanMethod peaks =
     (let sampleSpan = int (last peaks) - int (hd peaks);
          timeSpanSeconds = real_of_int sampleSpan / 150;
          beatCount = int (length peaks) - 1
      in if sampleSpan = 0 then 0
         else plausible (js_round (real_of_int beatCount * 60 / timeSpanSeconds)))"

text \<open>Method 3, from the duration of the whole window.\<close>

definition durationMethod :: "nat \<Rightarrow> nat list \<Rightarrow> int" where
  "durationMethod bufferLength peaks =
     (let durationSeconds = real bufferLength / 150
      in plausible (js_round (real_of_int (int (length peaks) - 1) * 60 / durationSeconds)))"

definition rateFromPeaks :: "nat \<Rightarrow> nat list \<Rightarrow> int" where
  "rateFromPeaks bufferLength peaks =
     (if length peaks \<ge> 3
      then (let r1 = intervalMethod peaks;
                r2 = (if r1 = 0 \<and> length peaks \<ge> 4 then spanMethod peaks else r1);
                r3 = (if r2 = 0 \<and> length peaks \<ge> 3 then durationMethod bufferLength peaks
                      else r2)
            in r3)
      else 0)"

text \<open>The computed rate and the peaks, once the window holds 750 samples.\<close>

definition calculateRate :: "real list \<Rightarrow> int \<times> nat list" where
  "calculateRate buf =
     (if length buf \<ge> 750
      then (let peaks = detectPeaks (filterSignal buf)
            in (rateFromPeaks (length buf) peaks, peaks))
      else (0, []))"

section \<open>Stabilisation\<close>

text \<open>
  The corrective factor of the first batches of an acquisition, applied to a positive
  computed rate while \<open>batchesReceived <= MIN_BATCHES_FOR_DISPLAY + 5\<close>.
\<close>

definition initialCorrection :: "nat \<Rightarrow> int \<Rightarrow> int" where
  "initialCorrection batches rate =
     (if rate > 0 \<and> batches \<le> MIN_BATCHES_FOR_DISPLAY + 5
      then (let correctionFactor = max 0 (fsub 1 (fdiv (real batches) 10))
            in if rate \<ge> VIGOROUS_THRESHOLD
               then rate - js_round (fmul (fmul (real_of_int rate) (fl 0.15)) correctionFactor)
               else if rate \<ge> 110
               then rate - js_round (fmul (fmul (real_of_int rate) (fl 0.10)) correctionFactor)
               else rate - js_round (fmul (fmul (real_of_int rate) (fl 0.05)) correctionFactor))
      else rate)"

text \<open>
  What a batch records before the final rate is chosen: the first display time (tested on
  the computed rate, inside the branch of the correction), then with the corrected rate
  the history (front insert, one entry dropped beyond four) and the high-zone streak.
\<close>

definition recordReading :: "engine \<Rightarrow> int \<Rightarrow> int \<Rightarrow> int \<Rightarrow> engine" where
  "recordReading s currentTime computed rate =
     (let s1 = (if computed > 0 \<and> firstDisplayTime s = 0
                   \<and> batchesReceived s \<ge> MIN_BATCHES_FOR_DISPLAY
                then s\<lparr>firstDisplayTime := currentTime\<rparr> else s);
          hist = rate # recentHeartRates s1;
          s2 = (if rate > 0
                then s1\<lparr>recentHeartRates :=
                           (if length hist > MAX_HISTORY then butlast hist else hist)\<rparr>
                else s1)
      in if rate \<ge> VIGOROUS_THRESHOLD
         then s2\<lparr>consecutiveHighZoneReadings := consecutiveHighZoneReadings s2 + 1\<rparr>
         else s2\<lparr>consecutiveHighZoneReadings := 0\<rparr>)"

text \<open>
  The two nested loops over \<open>i < j < Math.min(4, length)\<close> with their breaks: the inner
  loop compares one reading with the later ones, the outer loop stops at the first failure.
\<close>

fun closeToAll :: "int \<Rightarrow> int list \<Rightarrow> bool" where
  "closeToAll x [] = True"
| "closeToAll x (y # ys) = (if \<bar>x - y\<bar> > 15 then False else closeToAll x ys)"

fun pairwiseClose :: "int list \<Rightarrow> bool" where
  "pairwiseClose [] = True"
| "pairwiseClose (x # xs) = (if closeToAll x xs then pairwiseClose xs else False)"

definition readingsInRange :: "int list \<Rightarrow> bool" where
  "readingsInRange hist = pairwiseClose (take 4 hist)"

definition meanOfRecent :: "int list \<Rightarrow> int" where
  "meanOfRecent hist =
     (let valuesToAverage = take (min 4 (length hist)) hist
      in js_round (real_of_int (sum_list valuesToAverage) / real (length valuesToAverage)))"

definition medianReading :: "int list \<Rightarrow> int" where
  "medianReading hist = sort hist ! (length hist div 2)"

text \<open>The final rate before the first-minute restriction.\<close>

definition consensusRate :: "engine \<Rightarrow> int \<Rightarrow> int \<Rightarrow> int" where
  "consensusRate s currentTime rate =
     (let hist = recentHeartRates s
      in if length hist \<ge> 3
         then (if \<not> readingsInRange hist
               then (let isInInitialPeriod =
                           (firstDisplayTime s > 0
                            \<and> currentTime - firstDisplayTime s < INITIAL_PERIOD_DURATION)
                     in if rate \<ge> VIGOROUS_THRESHOLD
                           \<and> (isInInitialPeriod
                               \<or> consecutiveHighZoneReadings s < MIN_HIGH_ZONE_STREAK)
                        then (if medianReading hist \<ge> VIGOROUS_THRESHOLD
                              then meanOfRecent hist
                              else min (medianReading hist + 10)
                                     (js_round
                                        (fadd (fmul (real_of_int (medianReading hist)) (fl 0.7))
                                              (fmul (real_of_int rate) (fl 0.3)))))
                        else meanOfRecent hist)
               else (if rate > 0 then rate else hist ! 0))
         else rate)"

definition timeSinceFirstDisplay :: "engine \<Rightarrow> int \<Rightarrow> int" where
  "timeSinceFirstDisplay s currentTime =
     (if firstDisplayTime s > 0 then currentTime - firstDisplayTime s else 0)"

definition requiredStreak :: "int \<Rightarrow> int" where
  "requiredStreak elapsed =
     max (int MIN_HIGH_ZONE_STREAK) (js_round (5 + real_of_int (60000 - elapsed) / 15000))"

text \<open>The restriction of vigorous readings in the first minute and the first three.\<close>

definition restrictVigorous :: "engine \<Rightarrow> int \<Rightarrow> int \<Rightarrow> int" where
  "restrictVigorous s currentTime final =
     (if final \<ge> VIGOROUS_THRESHOLD
      then (let elapsed = timeSinceFirstDisplay s currentTime
            in if elapsed < 60000
               then (if int (consecutiveHighZoneReadings s) < requiredStreak elapsed
                     then (let capped = min final 125
                           in if lastDisplayedHeartRate s > 0
                                 \<and> lastDisplayedHeartRate s < capped
                              then min capped (lastDisplayedHeartRate s + 5)
                              else capped)
                     else final)
               else if elapsed < 180000
               then (if consecutiveHighZoneReadings s < MIN_HIGH_ZONE_STREAK
                        \<and> lastDisplayedHeartRate s > 0 \<and> lastDisplayedHeartRate s < final
                     then min final (lastDisplayedHeartRate s + 8)
                     else final)
               else final)
      else final)"

definition checkStable :: "int list \<Rightarrow> bool" where
  "checkStable hist = (if length hist \<ge> 3 then readingsInRange hist else False)"

section \<open>Zone and display\<close>

text \<open>
  The zone: \<open>HR_ZONES[0]\<close> unless the rate is positive and the loop over the table finds
  an upper limit at or above it.
\<close>

definition determineZone :: "int \<Rightarrow> zone_entry" where
  "determineZone final =
     (if final > 0
      then (case find (\<lambda>z. final \<le> upperLimit z) HR_ZONES of
              Some z \<Rightarrow> z
            | None \<Rightarrow> HR_ZONES ! 0)
      else HR_ZONES ! 0)"

text \<open>Decimal digits, for the template strings.\<close>

fun showNat :: "nat \<Rightarrow> string" where
  "showNat n =
     (if n < 10 then [char_of (48 + n)]
      else showNat (n div 10) @ [char_of (48 + n mod 10)])"

definition showInt :: "int \<Rightarrow> string" where
  "showInt i = (if i < 0 then CHR ''-'' # showNat (nat (- i)) else showNat (nat i))"

definition displayTexts :: "engine \<Rightarrow> int \<Rightarrow> int \<Rightarrow> string \<times> string" where
  "displayTexts s currentTime final =
     (let acquisitionTime = currentTime - acquisitionStartTime s;
          acquisitionSecondsElapsed = acquisitionTime div 1000
      in if final > 0
         then (if batchesReceived s < MIN_BATCHES_FOR_DISPLAY
               then (''Acquiring signal'',
                     ''Please wait... ('' @ showInt acquisitionSecondsElapsed @ ''s)'')
               else if isStable s then (showInt final, name (determineZone final))
               else (showInt final, ''Stabilizing...''))
         else (if acquisitionTime < 2000 then (''Detecting pulse'', ''Please wait...'')
               else (''Acquiring signal'',
                     ''Keep finger still ('' @ showInt acquisitionSecondsElapsed @ ''s)'')))"

section \<open>The batch step (\<open>processHeartRate\<close>)\<close>

text \<open>
  Everything after the rate calculation: the corrected rate, the history, the final rate,
  the stability flag, the last displayed rate, and the result.
\<close>

definition finishBatch ::
  "engine \<Rightarrow> int \<Rightarrow> real list \<Rightarrow> int \<times> nat list \<Rightarrow> response \<times> engine" where
  "finishBatch s currentTime ppgData calc =
     (let rate = initialCorrection (batchesReceived s) (fst calc);
          s1 = recordReading s currentTime (fst calc) rate;
          final = restrictVigorous s1 currentTime (consensusRate s1 currentTime rate);
          s2 = s1\<lparr>isStable := checkStable (recentHeartRates s1)\<rparr>;
          s3 = (if final > 0 \<and> batchesReceived s2 \<ge> MIN_BATCHES_FOR_DISPLAY
                then s2\<lparr>lastDisplayedHeartRate := final\<rparr> else s2);
          zn = determineZone final;
          texts = displayTexts s3 currentTime final;
          inAcquisitionPhase = (batchesReceived s3 < MIN_BATCHES_FOR_DISPLAY);
          s4 = s3\<lparr>lastDisplayedValue := fst texts\<rparr>
      in (createResponse s4 (if inAcquisitionPhase then 0 else final)
            (fingerDetectedState s4) (fst texts) (snd texts) (name zn) (colorCode zn)
            ''stable''
            (Some \<lparr>dbg_signalMax = Max (set ppgData),
                   dbg_bufferSize = length (sampleBuffer s4),
                   dbg_peakCount = length (snd calc),
                   dbg_calculatedRate = rate,
                   dbg_finalRate = final,
                   dbg_recentRates = take 4 (recentHeartRates s4),
                   dbg_stable = isStable s4,
                   dbg_batchesReceived = batchesReceived s4,
                   dbg_inAcquisitionPhase = inAcquisitionPhase,
                   dbg_percentBelowThreshold = percentBelowThreshold ppgData,
                   dbg_consecutiveLowSignalBatches = consecutiveLowSignalBatches s4,
                   dbg_isHighRate = (final \<ge> VIGOROUS_THRESHOLD),
                   dbg_consecutiveHighZoneReadings = consecutiveHighZoneReadings s4,
                   dbg_timeSinceFirstDisplay = timeSinceFirstDisplay s4 currentTime\<rparr>),
          s4))"

text \<open>
  One call of \<open>processHeartRate\<close> at time \<open>Date.now() = currentTime\<close>: the result and the
  engine after it. A batch of fewer than 100 samples (or a missing one) returns at once
  and changes nothing.
\<close>

definition processHeartRate :: "engine \<Rightarrow> int \<Rightarrow> real list \<Rightarrow> response \<times> engine" where
  "processHeartRate s currentTime ppgData =
     (if length ppgData < 100 then (noSignalResponse s, s)
      else (let s1 = detectFinger s ppgData
            in if fingerDetectedState s1
               then (let s2 = appendBatch (startAcquisition s1 currentTime) ppgData
                     in finishBatch s2 currentTime ppgData (calculateRate (sampleBuffer s2)))
               else (noSignalResponse (resetState s1), resetState s1)))"

section \<open>The advanced module (\<open>heartRateProcessor.js\<close>)\<close>

text \<open>
  The object \<open>hrState\<close> of the advanced module, and the helpers it calls. The module
  refers to \<open>assessSignalQuality\<close>, \<open>getCurrentZone\<close>, \<open>calculateTrend\<close> and
  \<open>isStableReading\<close> without defining them, so they are parameters here, as is the result
  of \<open>calculateHeartRate\<close>, a rate and a confidence.
\<close>

record hr_state =
  hr_fingerDetected :: bool
  ppgBuffer :: "real list"
  heartRateHistory :: "int list"
  confidenceScores :: "real list"
  timestamps :: "int list"
  lastHeartRate :: int
  lastCalculation :: int
  signalQuality :: real
  stabilityCounter :: int
  smoothedHeartRate :: int

record helpers =
  assessSignalQuality :: "real list \<Rightarrow> real"
  calculateHeartRate :: "real list \<Rightarrow> int \<times> real"
  getCurrentZone :: "int \<Rightarrow> string"
  calculateTrend :: "int list \<Rightarrow> string"
  isStableReading :: "int list \<Rightarrow> bool"

record reading =
  rd_heartRate :: int
  rd_zone :: string
  rd_quality :: real
  rd_trend :: string
  rd_fingerDetected :: bool
  rd_isStable :: "bool option"

definition SAMPLE_RATE :: nat where "SAMPLE_RATE = 150"
definition BUFFER_SIZE :: nat where "BUFFER_SIZE = 1000"
definition MAX_JUMP :: int where "MAX_JUMP = 15"

definition noReading :: reading where
  "noReading =
     \<lparr>rd_heartRate = 0, rd_zone = ''Rest'', rd_quality = 0, rd_trend = ''stable'',
      rd_fingerDetected = False, rd_isStable = None\<rparr>"

text \<open>
  The branch \<open>if (result.heartRate > 0)\<close>, block by block. First the jump limitation:
  with a last rate, a new rate more than \<open>MAX_JUMP\<close> away moves only \<open>MAX_JUMP\<close>
  towards it, and the confidence of the result is multiplied by 0.7.
\<close>

definition limitJump :: "int \<Rightarrow> int \<times> real \<Rightarrow> int \<times> real" where
  "limitJump lastRate result =
     (if lastRate > 0 \<and> \<bar>fst result - lastRate\<bar> > MAX_JUMP
      then (if fst result > lastRate then lastRate + MAX_JUMP else lastRate - MAX_JUMP,
            snd result * 0.7)
      else result)"

text \<open>
  The limited rate, the confidence and the time go to the front of the three histories,
  each losing its last entry once the rates number more than ten; the limited rate is
  the new last rate.
\<close>

definition storeReading :: "hr_state \<Rightarrow> int \<Rightarrow> int \<times> real \<Rightarrow> hr_state" where
  "storeReading st now limited =
     (let rates = fst limited # heartRateHistory st;
          confs = snd limited # confidenceScores st;
          stamps = now # timestamps st
      in (if length rates > 10
          then st\<lparr>heartRateHistory := butlast rates, confidenceScores := butlast confs,
                  timestamps := butlast stamps, lastHeartRate := fst limited\<rparr>
          else st\<lparr>heartRateHistory := rates, confidenceScores := confs,
                  timestamps := stamps, lastHeartRate := fst limited\<rparr>))"

text \<open>The smoothed rate for display, and the signal quality.\<close>

definition smoothDisplay :: "hr_state \<Rightarrow> int \<times> real \<Rightarrow> hr_state" where
  "smoothDisplay st limited =
     st\<lparr>smoothedHeartRate :=
          (if smoothedHeartRate st = 0 then fst limited
           else js_round (fadd (fmul (fl 0.85) (real_of_int (smoothedHeartRate st)))
                                (fmul (fl 0.15) (real_of_int (fst limited))))),
        signalQuality := snd limited\<rparr>"

definition countStability :: "helpers \<Rightarrow> hr_state \<Rightarrow> hr_state" where
  "countStability h st =
     (if isStableReading h (heartRateHistory st)
      then st\<lparr>stabilityCounter := stabilityCounter st + 1\<rparr>
      else st\<lparr>stabilityCounter := max 0 (stabilityCounter st - 1)\<rparr>)"

definition acceptReading ::
  "helpers \<Rightarrow> hr_state \<Rightarrow> int \<Rightarrow> int \<times> real \<Rightarrow> reading \<times> hr_state" where
  "acceptReading h st now result =
     (let limited = limitJump (lastHeartRate st) result;
          st1 = countStability h (smoothDisplay (storeReading st now limited) limited)
      in (\<lparr>rd_heartRate = smoothedHeartRate st1,
           rd_zone = getCurrentZone h (smoothedHeartRate st1),
           rd_quality = snd limited,
           rd_trend = calculateTrend h (heartRateHistory st1),
           rd_fingerDetected = True,
           rd_isStable = Some (stabilityCounter st1 > 2)\<rparr>, st1))"

text \<open>The reading that carries the smoothed rate over, with a given quality.\<close>

definition carriedReading :: "helpers \<Rightarrow> hr_state \<Rightarrow> real \<Rightarrow> reading" where
  "carriedReading h st q =
     \<lparr>rd_heartRate = smoothedHeartRate st, rd_zone = getCurrentZone h (smoothedHeartRate st),
      rd_quality = q, rd_trend = calculateTrend h (heartRateHistory st),
      rd_fingerDetected = True, rd_isStable = None\<rparr>"

text \<open>The incoming data joins the buffer, which keeps its last \<open>BUFFER_SIZE\<close> samples.\<close>

definition appendToBuffer :: "hr_state \<Rightarrow> real list \<Rightarrow> hr_state" where
  "appendToBuffer st ppgData =
     (let buf = ppgBuffer st @ ppgData
      in st\<lparr>ppgBuffer := (if length buf > BUFFER_SIZE
                             then drop (length buf - BUFFER_SIZE) buf else buf)\<rparr>)"

text \<open>\<open>processHeartRate\<close> of the advanced module, at time \<open>Date.now() = now\<close>.\<close>

definition processHeartRateAdvanced ::
  "helpers \<Rightarrow> hr_state \<Rightarrow> int \<Rightarrow> real list \<Rightarrow> reading \<times> hr_state" where
  "processHeartRateAdvanced h st now ppgData =
     (let st1 = appendToBuffer st ppgData
      in if length (ppgBuffer st1) < SAMPLE_RATE * 2 then (noReading, st1)
         else (let q = assessSignalQuality h (ppgBuffer st1);
                   st2 = st1\<lparr>hr_fingerDetected := (q > 0.3)\<rparr>
               in if \<not> hr_fingerDetected st2
                  then (noReading, st2\<lparr>stabilityCounter := 0, smoothedHeartRate := 0\<rparr>)
                  else if now - lastCalculation st2 < 500 \<and> smoothedHeartRate st2 > 0
                  then (carriedReading h st2 (signalQuality st2), st2)
                  else (let result = calculateHeartRate h (ppgBuffer st2);
                            st3 = st2\<lparr>lastCalculation := now\<rparr>
                        in if fst result > 0 then acceptReading h st3 now result
                           else if smoothedHeartRate st3 > 0 \<and> q > 0.5
                           then (carriedReading h st3 (q * 0.7), st3)
                           else (\<lparr>rd_heartRate = 0, rd_zone = ''Rest'', rd_quality = q,
                                  rd_trend = ''stable'', rd_fingerDetected = True,
                                  rd_isStable = None\<rparr>, st3))))"

section \<open>Intermediate values of a batch\<close>

text \<open>
  Names for the values \<open>finishBatch\<close> passes from one stage to the next, so that the
  properties can speak of them: the rate after the initial correction, the engine once
  the reading is recorded, the final rate before and after the restriction of vigorous
  readings. The lemmas \<open>finishBatch_engine\<close> and \<open>finishBatch_response\<close> tie them to
  \<open>finishBatch\<close>.
\<close>

definition correctedRate :: "engine \<Rightarrow> int \<times> nat list \<Rightarrow> int" where
  "correctedRate s calc = initialCorrection (batchesReceived s) (fst calc)"

definition afterRecording :: "engine \<Rightarrow> int \<Rightarrow> int \<times> nat list \<Rightarrow> engine" where
  "afterRecording s currentTime calc =
     recordReading s currentTime (fst calc) (correctedRate s calc)"

definition consensusOf :: "engine \<Rightarrow> int \<Rightarrow> int \<times> nat list \<Rightarrow> int" where
  "consensusOf s currentTime calc =
     consensusRate (afterRecording s currentTime calc) currentTime (correctedRate s calc)"

definition finalHeartRate :: "engine \<Rightarrow> int \<Rightarrow> int \<times> nat list \<Rightarrow> int" where
  "finalHeartRate s currentTime calc =
     restrictVigorous (afterRecording s currentTime calc) currentTime
       (consensusOf s currentTime calc)"

section \<open>Concrete inputs\<close>

text \<open>
  A conditioned signal of 45 values: one tall peak at index 2 on a flat base of 1, and a
  small one at index 42 that only the lower threshold of the retry scan accepts.
\<close>

definition sig45 :: "real list" where
  "sig45 = [1, 1, 10, 1, 1] @ replicate 35 1 @ [1/10, 1/10, 4/10, 1/10, 1/10]"

text \<open>Two batches of 100 samples: one all above the contact threshold, one all below.\<close>

definition goodBatch :: "real list" where
  "goodBatch = replicate 100 20000"

definition lowBatch :: "real list" where
  "lowBatch = replicate 100 0"

text \<open>Two batches of 99 samples, one short of the minimum: all good, and all low.\<close>

definition shortBatch :: "real list" where
  "shortBatch = replicate 99 20000"

definition shortLowBatch :: "real list" where
  "shortLowBatch = replicate 99 0"

text \<open>An engine in contact, eight batches into an acquisition, its history at 150.\<close>

definition trackingEngine :: engine where
  "trackingEngine =
     initialEngine\<lparr>recentHeartRates := [150, 150, 150], fingerDetectedState := True,
       isAcquiring := True, batchesReceived := 8, firstDisplayTime := 400,
       lastDisplayedHeartRate := 150, consecutiveHighZoneReadings := 9\<rparr>"

text \<open>An engine in contact after four batches, with the readings 72, 74, 70, 73.\<close>

definition steadyEngine :: engine where
  "steadyEngine =
     initialEngine\<lparr>recentHeartRates := [72, 74, 70, 73], fingerDetectedState := True,
       isAcquiring := True, batchesReceived := 4\<rparr>"

text \<open>
  An engine in contact at its first and at its fifth batch, and one twelve batches in,
  ten seconds after its first display, that last displayed 115.
\<close>

definition earlyEngine :: engine where
  "earlyEngine =
     initialEngine\<lparr>fingerDetectedState := True, isAcquiring := True, batchesReceived := 1\<rparr>"

definition fifthEngine :: engine where
  "fifthEngine =
     initialEngine\<lparr>fingerDetectedState := True, isAcquiring := True, batchesReceived := 5\<rparr>"

definition warmEngine :: engine where
  "warmEngine =
     initialEngine\<lparr>recentHeartRates := [148, 149], fingerDetectedState := True,
       isAcquiring := True, batchesReceived := 12, firstDisplayTime := 1000,
       lastDisplayedHeartRate := 115\<rparr>"

text \<open>
  The engine after \<open>trackingEngine\<close> has lost contact: two low batches in a row, the
  second of which makes \<open>processHeartRate\<close> call \<open>resetState\<close>.
\<close>

definition lostEngine :: engine where
  "lostEngine =
     snd (processHeartRate (snd (processHeartRate trackingEngine 1000 lowBatch)) 1500 lowBatch)"

text \<open>Contact regained after \<open>lostEngine\<close>: four good batches, half a second apart.\<close>

definition regainedEngine :: engine where
  "regainedEngine =
     snd (processHeartRate (snd (processHeartRate (snd (processHeartRate
       (snd (processHeartRate lostEngine 2000 goodBatch)) 2500 goodBatch)) 3000 goodBatch))
       3500 goodBatch)"

text \<open>
  For the advanced module: helpers that accept any signal and compute 95 with confidence
  0.9, a state whose last rate is 70, and a batch of 300 samples.
\<close>

definition fixedHelpers :: helpers where
  "fixedHelpers =
     \<lparr>assessSignalQuality = (\<lambda>buf. 1), calculateHeartRate = (\<lambda>buf. (95, 0.9)),
      getCurrentZone = (\<lambda>rate. ''Light''), calculateTrend = (\<lambda>rates. ''rising''),
      isStableReading = (\<lambda>rates. False)\<rparr>"

definition priorState :: hr_state where
  "priorState =
     \<lparr>hr_fingerDetected = True, ppgBuffer = [], heartRateHistory = [70],
      confidenceScores = [0.9], timestamps = [0], lastHeartRate = 70, lastCalculation = 0,
      signalQuality = 0.9, stabilityCounter = 0, smoothedHeartRate = 70\<rparr>"

definition flatBatch :: "real list" where
  "flatBatch = replicate 300 1"

section \<open>Invariants used by the properties\<close>

text \<open>
  What both scans keep: the accepted indices are in ascending order, any two of them at
  least \<open>minPeakDistance\<close> apart, and none lies beyond \<open>lastPeakIndex\<close>.
\<close>

definition spaced :: "nat list \<Rightarrow> bool" where
  "spaced ps \<longleftrightarrow> sorted_wrt (\<lambda>a b. int a + minPeakDistance \<le> int b) ps"

definition peaksInv :: "nat list \<times> int \<Rightarrow> bool" where
  "peaksInv st \<longleftrightarrow> spaced (fst st) \<and> (\<forall>p \<in> set (fst st). int p \<le> snd st)"

section \<open>Properties of peak detection\<close>

declare scanPeaks.simps [simp del] rescanPeaks.simps [simp del] showNat.simps [simp del]

declare halvings.simps [simp del] doublings.simps [simp del]

lemma peaksInv_push:
  assumes "peaksInv (peaks, lastPeakIndex)" and "int i - lastPeakIndex \<ge> minPeakDistance"
  shows "peaksInv (peaks @ [i], int i)"
proof -
  have far: "\<forall>p \<in> set peaks. int p + minPeakDistance \<le> int i"
    using assms by (auto simp: peaksInv_def)
  have "\<forall>p \<in> set peaks. int p \<le> int i"
    using far by (auto simp: minPeakDistance_def)
  then show ?thesis
    using assms(1) far by (auto simp: peaksInv_def spaced_def sorted_wrt_append)
qed

lemma scanPeaks_inv:
  "peaksInv st \<Longrightarrow> peaksInv (scanPeaks f t i st)"
proof (induction f t i st rule: scanPeaks.induct)
  case (1 f threshold i peaks lastPeakIndex)
  show ?case
  proof (cases "i + 2 < length f")
    case False
    then show ?thesis using "1.prems" by (subst scanPeaks.simps) simp
  next
    case True
    show ?thesis
    proof (cases "localMax f i \<and> f ! i > threshold \<and> int i - lastPeakIndex \<ge> minPeakDistance")
      case accept: True
      then have "peaksInv (peaks @ [i], int i)"
        using "1.prems" peaksInv_push by blast
      then show ?thesis using True accept "1.IH"(1) by (subst scanPeaks.simps) simp
    next
      case reject: False
      then show ?thesis using True "1.IH"(2) "1.prems" by (subst scanPeaks.simps) auto
    qed
  qed
qed

lemma rescanPeaks_inv:
  "peaksInv st \<Longrightarrow> peaksInv (rescanPeaks f t i st)"
proof (induction f t i st rule: rescanPeaks.induct)
  case (1 f lowerThreshold i peaks lastPeakIndex)
  show ?case
  proof (cases "i + 2 < length f")
    case False
    then show ?thesis using "1.prems" by (subst rescanPeaks.simps) simp
  next
    case True
    show ?thesis
    proof (cases "i \<in> set peaks")
      case known: True
      then show ?thesis using True "1.IH"(1) "1.prems" by (subst rescanPeaks.simps) simp
    next
      case fresh: False
      show ?thesis
      proof (cases "localMax f i \<and> f ! i > lowerThreshold
                    \<and> int i - lastPeakIndex \<ge> minPeakDistance")
        case accept: True
        then have "peaksInv (peaks @ [i], int i)"
          using "1.prems" peaksInv_push by blast
        then show ?thesis using True fresh accept "1.IH"(2) by (subst rescanPeaks.simps) simp
      next
        case reject: False
        then show ?thesis using True fresh "1.IH"(3) "1.prems" by (subst rescanPeaks.simps) auto
      qed
    qed
  qed
qed

lemma spaced_sorted: "spaced ps \<Longrightarrow> sorted ps"
  unfolding spaced_def
  by (erule sorted_wrt_mono_rel [rotated]) (simp add: minPeakDistance_def)

lemma spaced_sort: "spaced ps \<Longrightarrow> sort ps = ps"
  by (simp add: spaced_sorted sort_key_id_if_sorted)

lemma detectPeaks_spaced: "spaced (detectPeaks f)"
proof (cases "f = []")
  case True
  then show ?thesis by (simp add: detectPeaks_def spaced_def)
next
  case False
  define base where "base = rev (sort f) ! (length (rev (sort f)) div 4)"
  define first where "first = scanPeaks f (base * 0.5) 2 ([], - minPeakDistance)"
  have start: "peaksInv ([], - minPeakDistance)"
    by (simp add: peaksInv_def spaced_def)
  have one: "peaksInv first"
    unfolding first_def by (rule scanPeaks_inv [OF start])
  have two: "peaksInv (rescanPeaks f (base * 0.2) 2 first)"
    by (rule rescanPeaks_inv [OF one])
  have "spaced (sort (fst (rescanPeaks f (base * 0.2) 2 first)))"
    using two by (simp add: peaksInv_def spaced_sort)
  moreover have "spaced (fst first)"
    using one by (simp add: peaksInv_def)
  ultimately show ?thesis
    using False by (simp add: detectPeaks_def Let_def base_def first_def)
qed

lemma detectPeaks_sig45: "detectPeaks sig45 = [2, 42]"
  by code_simp

text \<open>
  Claim C8. For every conditioned signal, \<open>detectPeaks\<close> returns a strictly increasing
  sequence of indices in which consecutive peaks are at least \<open>minPeakDistance = 38\<close>
  samples apart; the retry scan with the lower threshold and the final sort keep this.
\<close>

theorem C8_peaks_increasing_and_spaced:
  "sorted_wrt (<) (detectPeaks f) \<and>
   (\<forall>k. Suc k < length (detectPeaks f) \<longrightarrow> detectPeaks f ! k + 38 \<le> detectPeaks f ! Suc k)"
proof -
  have sp: "spaced (detectPeaks f)"
    by (rule detectPeaks_spaced)
  have "sorted_wrt (<) (detectPeaks f)"
    using sp unfolding spaced_def
    by (rule sorted_wrt_mono_rel [rotated]) (simp add: minPeakDistance_def)
  moreover have "\<forall>k. Suc k < length (detectPeaks f)
                   \<longrightarrow> detectPeaks f ! k + 38 \<le> detectPeaks f ! Suc k"
  proof (intro allI impI)
    fix k assume k: "Suc k < length (detectPeaks f)"
    have "int (detectPeaks f ! k) + minPeakDistance \<le> int (detectPeaks f ! Suc k)"
      using sp k unfolding spaced_def by (simp add: sorted_wrt_iff_nth_less)
    then show "detectPeaks f ! k + 38 \<le> detectPeaks f ! Suc k"
      by (simp add: minPeakDistance_def)
  qed
  ultimately show ?thesis by blast
qed

text \<open>
  On \<open>sig45\<close> the first scan finds the peak at 2 alone, and the retry scan adds the one
  at 42: two peaks, in order, 40 samples apart.
\<close>

theorem C8_peaks_witness:
  "detectPeaks sig45 = [2, 42] \<and> Suc 0 < length (detectPeaks sig45) \<and>
   sorted_wrt (<) (detectPeaks sig45) \<and> detectPeaks sig45 ! 0 + 38 \<le> detectPeaks sig45 ! Suc 0"
proof -
  have len: "Suc 0 < length (detectPeaks sig45)"
    by (simp add: detectPeaks_sig45)
  show ?thesis
    using C8_peaks_increasing_and_spaced [of sig45] len detectPeaks_sig45 by blast
qed

section \<open>The batch step, stage by stage\<close>

lemma createResponse_sel [simp]:
  "heartRate (createResponse s r f a b c d e g) = r"
  "fingerDetected (createResponse s r f a b c d e g) = f"
  "zone (createResponse s r f a b c d e g) = c"
  "quality (createResponse s r f a b c d e g) = (if f then 0.8 else 0)"
  "confidence (createResponse s r f a b c d e g) = (if f then 0.8 else 0)"
  "debug (createResponse s r f a b c d e g) = g"
  "phase (createResponse s r f a b c d e g) =
     (if f then (if batchesReceived s < MIN_BATCHES_FOR_DISPLAY then ''acquiring''
                 else if isStable s then ''tracking'' else ''stabilizing'')
      else ''no_signal'')"
  by (simp_all add: createResponse_def)

lemma recordReading_frame [simp]:
  "batchesReceived (recordReading s t a b) = batchesReceived s"
  "fingerDetectedState (recordReading s t a b) = fingerDetectedState s"
  "lastDisplayedHeartRate (recordReading s t a b) = lastDisplayedHeartRate s"
  "isAcquiring (recordReading s t a b) = isAcquiring s"
  "sampleBuffer (recordReading s t a b) = sampleBuffer s"
  "acquisitionStartTime (recordReading s t a b) = acquisitionStartTime s"
  "consecutiveLowSignalBatches (recordReading s t a b) = consecutiveLowSignalBatches s"
  by (simp_all add: recordReading_def Let_def)

lemmas mids = correctedRate_def afterRecording_def consensusOf_def finalHeartRate_def

lemma finishBatch_engine:
  "recentHeartRates (snd (finishBatch s t xs c)) = recentHeartRates (afterRecording s t c)"
  "isStable (snd (finishBatch s t xs c)) = checkStable (recentHeartRates (afterRecording s t c))"
  "batchesReceived (snd (finishBatch s t xs c)) = batchesReceived s"
  "fingerDetectedState (snd (finishBatch s t xs c)) = fingerDetectedState s"
  "isAcquiring (snd (finishBatch s t xs c)) = isAcquiring s"
  "sampleBuffer (snd (finishBatch s t xs c)) = sampleBuffer s"
  "acquisitionStartTime (snd (finishBatch s t xs c)) = acquisitionStartTime s"
  "consecutiveLowSignalBatches (snd (finishBatch s t xs c)) = consecutiveLowSignalBatches s"
  "consecutiveHighZoneReadings (snd (finishBatch s t xs c))
     = consecutiveHighZoneReadings (afterRecording s t c)"
  "firstDisplayTime (snd (finishBatch s t xs c)) = firstDisplayTime (afterRecording s t c)"
  "lastDisplayedHeartRate (snd (finishBatch s t xs c)) =
     (if finalHeartRate s t c > 0 \<and> batchesReceived s \<ge> MIN_BATCHES_FOR_DISPLAY
      then finalHeartRate s t c else lastDisplayedHeartRate s)"
  by (simp_all add: finishBatch_def Let_def mids)

lemma finishBatch_response:
  "heartRate (fst (finishBatch s t xs c)) =
     (if batchesReceived s < MIN_BATCHES_FOR_DISPLAY then 0 else finalHeartRate s t c)"
  "fingerDetected (fst (finishBatch s t xs c)) = fingerDetectedState s"
  "zone (fst (finishBatch s t xs c)) = name (determineZone (finalHeartRate s t c))"
  "quality (fst (finishBatch s t xs c)) = (if fingerDetectedState s then 0.8 else 0)"
  "confidence (fst (finishBatch s t xs c)) = (if fingerDetectedState s then 0.8 else 0)"
  "phase (fst (finishBatch s t xs c)) =
     (if fingerDetectedState s
      then (if batchesReceived s < MIN_BATCHES_FOR_DISPLAY then ''acquiring''
            else if checkStable (recentHeartRates (afterRecording s t c)) then ''tracking''
            else ''stabilizing'')
      else ''no_signal'')"
  "map_option dbg_finalRate (debug (fst (finishBatch s t xs c))) = Some (finalHeartRate s t c)"
  "map_option dbg_calculatedRate (debug (fst (finishBatch s t xs c))) = Some (correctedRate s c)"
  by (simp_all add: finishBatch_def Let_def mids)

lemma processHeartRate_contact:
  assumes "100 \<le> length xs" and "fingerDetectedState (detectFinger s xs)"
  shows "processHeartRate s t xs =
           finishBatch (appendBatch (startAcquisition (detectFinger s xs) t) xs) t xs
             (calculateRate (sampleBuffer (appendBatch (startAcquisition (detectFinger s xs) t) xs)))"
  using assms by (simp add: processHeartRate_def Let_def)

lemma processHeartRate_lost:
  assumes "100 \<le> length xs" and "\<not> fingerDetectedState (detectFinger s xs)"
  shows "processHeartRate s t xs =
           (noSignalResponse (resetState (detectFinger s xs)), resetState (detectFinger s xs))"
  using assms by (simp add: processHeartRate_def Let_def)

lemma processHeartRate_short:
  assumes "length xs < 100"
  shows "processHeartRate s t xs = (noSignalResponse s, s)"
  using assms by (simp add: processHeartRate_def)

lemma admitted_finger [simp]:
  "fingerDetectedState (appendBatch (startAcquisition s1 t) xs) = fingerDetectedState s1"
  by (simp add: appendBatch_def startAcquisition_def Let_def)

lemma detectFinger_cases:
  "currentBatchHasFinger b \<Longrightarrow>
     detectFinger s b = s\<lparr>consecutiveLowSignalBatches := 0, fingerDetectedState := True\<rparr>"
  "\<not> currentBatchHasFinger b \<Longrightarrow> consecutiveLowSignalBatches s = 0 \<Longrightarrow>
     detectFinger s b = s\<lparr>consecutiveLowSignalBatches := 1\<rparr>"
  "\<not> currentBatchHasFinger b \<Longrightarrow> 1 \<le> consecutiveLowSignalBatches s \<Longrightarrow>
     detectFinger s b = s\<lparr>consecutiveLowSignalBatches := consecutiveLowSignalBatches s + 1,
                          fingerDetectedState := False\<rparr>"
  by (simp_all add: detectFinger_def)

lemma admitted_low [simp]:
  "consecutiveLowSignalBatches (appendBatch (startAcquisition s1 t) xs) = consecutiveLowSignalBatches s1"
  by (simp add: appendBatch_def startAcquisition_def Let_def)

lemma processHeartRate_finger:
  assumes "100 \<le> length b"
  shows "fingerDetectedState (snd (processHeartRate s t b)) = fingerDetectedState (detectFinger s b)"
    and "fingerDetected (fst (processHeartRate s t b)) = fingerDetectedState (detectFinger s b)"
    and "consecutiveLowSignalBatches (snd (processHeartRate s t b)) =
           (if fingerDetectedState (detectFinger s b)
            then consecutiveLowSignalBatches (detectFinger s b) else 0)"
  using assms
  by (cases "fingerDetectedState (detectFinger s b)";
      simp add: processHeartRate_contact processHeartRate_lost finishBatch_engine
        finishBatch_response noSignalResponse_def resetState_def)+

lemma closeToAll_iff: "closeToAll x ys \<longleftrightarrow> (\<forall>y \<in> set ys. \<bar>x - y\<bar> \<le> 15)"
  by (induction ys) auto

lemma pairwiseClose_iff: "pairwiseClose xs \<longleftrightarrow> sorted_wrt (\<lambda>a b. \<bar>a - b\<bar> \<le> 15) xs"
  by (induction xs) (auto simp: closeToAll_iff)

lemma readingsInRange_iff:
  "readingsInRange h \<longleftrightarrow> (\<forall>i j. i < j \<and> j < min 4 (length h) \<longrightarrow> \<bar>h ! i - h ! j\<bar> \<le> 15)"
  unfolding readingsInRange_def pairwiseClose_iff sorted_wrt_iff_nth_less
  by (auto simp: min_def)

section \<open>Contact hysteresis\<close>

text \<open>
  Claim C5, as the code has it: for batches of at least 100 samples. With contact
  established and no low-signal batch pending, one batch in which 70 percent or more of
  the samples are at or below 18000 leaves \<open>fingerDetected\<close> true, and a second such batch
  right after it sets it false; contact is lost only on a low-signal batch that follows a
  low-signal batch; and a batch with less than 70 percent low samples sets
  \<open>fingerDetected\<close> true at once and the low-signal counter to 0. A batch of fewer than
  100 samples is answered with \<open>fingerDetected\<close> false and changes nothing in the engine.
\<close>

theorem C5_contact_hysteresis:
  assumes "100 \<le> length b1" and "100 \<le> length b2"
  shows
   "(fingerDetectedState s \<and> consecutiveLowSignalBatches s = 0 \<and> percentBelowThreshold b1 \<ge> 70
       \<longrightarrow> fingerDetectedState (snd (processHeartRate s t1 b1))
           \<and> fingerDetected (fst (processHeartRate s t1 b1))
           \<and> (percentBelowThreshold b2 \<ge> 70
                \<longrightarrow> \<not> fingerDetectedState (snd (processHeartRate (snd (processHeartRate s t1 b1)) t2 b2))
                    \<and> \<not> fingerDetected (fst (processHeartRate (snd (processHeartRate s t1 b1)) t2 b2))))
    \<and> (fingerDetectedState s \<and> \<not> fingerDetectedState (snd (processHeartRate s t1 b1))
       \<longrightarrow> percentBelowThreshold b1 \<ge> 70 \<and> consecutiveLowSignalBatches s \<ge> 1)
    \<and> (percentBelowThreshold b1 < 70
       \<longrightarrow> fingerDetectedState (snd (processHeartRate s t1 b1))
           \<and> fingerDetected (fst (processHeartRate s t1 b1))
           \<and> consecutiveLowSignalBatches (snd (processHeartRate s t1 b1)) = 0)
    \<and> (length b < 100
       \<longrightarrow> snd (processHeartRate s t1 b) = s \<and> \<not> fingerDetected (fst (processHeartRate s t1 b)))"
proof (intro conjI impI)
  assume held: "fingerDetectedState s \<and> consecutiveLowSignalBatches s = 0
                \<and> percentBelowThreshold b1 \<ge> 70"
  then have low1: "\<not> currentBatchHasFinger b1"
    by (simp add: currentBatchHasFinger_def)
  have d: "detectFinger s b1 = s\<lparr>consecutiveLowSignalBatches := 1\<rparr>"
    using held low1 by (simp add: detectFinger_cases)
  show one: "fingerDetectedState (snd (processHeartRate s t1 b1))"
    using held assms(1) by (simp add: processHeartRate_finger d)
  show "fingerDetected (fst (processHeartRate s t1 b1))"
    using held assms(1) by (simp add: processHeartRate_finger d)
  have cnt: "consecutiveLowSignalBatches (snd (processHeartRate s t1 b1)) = 1"
    using held assms(1) by (simp add: processHeartRate_finger d)
  assume "percentBelowThreshold b2 \<ge> 70"
  then have low2: "\<not> currentBatchHasFinger b2"
    by (simp add: currentBatchHasFinger_def)
  have d2: "\<not> fingerDetectedState (detectFinger (snd (processHeartRate s t1 b1)) b2)"
    using low2 cnt by (simp add: detectFinger_cases)
  show "\<not> fingerDetectedState (snd (processHeartRate (snd (processHeartRate s t1 b1)) t2 b2))"
    using d2 assms(2) by (simp add: processHeartRate_finger)
  show "\<not> fingerDetected (fst (processHeartRate (snd (processHeartRate s t1 b1)) t2 b2))"
    using d2 assms(2) by (simp add: processHeartRate_finger)
next
  assume lost: "fingerDetectedState s \<and> \<not> fingerDetectedState (snd (processHeartRate s t1 b1))"
  then have off: "\<not> fingerDetectedState (detectFinger s b1)"
    using assms(1) by (simp add: processHeartRate_finger)
  show "percentBelowThreshold b1 \<ge> 70"
    using off by (auto simp: detectFinger_def currentBatchHasFinger_def split: if_splits)
  show "consecutiveLowSignalBatches s \<ge> 1"
    using off lost by (auto simp: detectFinger_def Let_def split: if_splits)
next
  assume "percentBelowThreshold b1 < 70"
  then have good: "currentBatchHasFinger b1"
    by (simp add: currentBatchHasFinger_def)
  show "fingerDetectedState (snd (processHeartRate s t1 b1))"
    using assms(1) good by (simp add: processHeartRate_finger detectFinger_cases)
  show "fingerDetected (fst (processHeartRate s t1 b1))"
    using assms(1) good by (simp add: processHeartRate_finger detectFinger_cases)
  show "consecutiveLowSignalBatches (snd (processHeartRate s t1 b1)) = 0"
    using assms(1) good by (simp add: processHeartRate_finger detectFinger_cases)
next
  assume short: "length b < 100"
  show "snd (processHeartRate s t1 b) = s"
    using short by (simp add: processHeartRate_short)
  show "\<not> fingerDetected (fst (processHeartRate s t1 b))"
    using short by (simp add: processHeartRate_short noSignalResponse_def)
qed

text \<open>
  From \<open>trackingEngine\<close>, two batches of low samples in a row; and a batch of good
  samples on the initial engine.
\<close>

theorem C5_contact_hysteresis_witness:
  "100 \<le> length lowBatch \<and> 100 \<le> length goodBatch
   \<and> fingerDetectedState trackingEngine \<and> consecutiveLowSignalBatches trackingEngine = 0
   \<and> percentBelowThreshold lowBatch \<ge> 70
   \<and> fingerDetectedState (snd (processHeartRate trackingEngine 1000 lowBatch))
   \<and> fingerDetected (fst (processHeartRate trackingEngine 1000 lowBatch))
   \<and> \<not> fingerDetectedState
         (snd (processHeartRate (snd (processHeartRate trackingEngine 1000 lowBatch)) 1500 lowBatch))
   \<and> \<not> fingerDetected
         (fst (processHeartRate (snd (processHeartRate trackingEngine 1000 lowBatch)) 1500 lowBatch))
   \<and> consecutiveLowSignalBatches (snd (processHeartRate trackingEngine 1000 lowBatch)) \<ge> 1
   \<and> percentBelowThreshold goodBatch < 70
   \<and> fingerDetectedState (snd (processHeartRate initialEngine 2000 goodBatch))
   \<and> fingerDetected (fst (processHeartRate initialEngine 2000 goodBatch))
   \<and> consecutiveLowSignalBatches (snd (processHeartRate initialEngine 2000 goodBatch)) = 0
   \<and> length shortBatch < 100
   \<and> snd (processHeartRate trackingEngine 1000 shortBatch) = trackingEngine
   \<and> \<not> fingerDetected (fst (processHeartRate trackingEngine 1000 shortBatch))"
proof -
  have len: "100 \<le> length lowBatch" "100 \<le> length goodBatch"
    by (simp_all add: lowBatch_def goodBatch_def)
  have short: "length shortBatch < 100"
    by (simp add: shortBatch_def)
  have held: "fingerDetectedState trackingEngine"
    "consecutiveLowSignalBatches trackingEngine = 0"
    by (simp_all add: trackingEngine_def initialEngine_def)
  have low: "percentBelowThreshold lowBatch \<ge> 70"
    by (simp add: lowBatch_def percentBelowThreshold_def)
  have good: "percentBelowThreshold goodBatch < 70"
    by (simp add: goodBatch_def percentBelowThreshold_def)
  note two = C5_contact_hysteresis [OF len(1) len(1), of trackingEngine 1000 1500 shortBatch]
  note again = C5_contact_hysteresis
    [OF len(1) len(1), of "snd (processHeartRate trackingEngine 1000 lowBatch)" 1500 0 shortBatch]
  note fresh = C5_contact_hysteresis [OF len(2) len(2), of initialEngine 2000 0 shortBatch]
  have a: "fingerDetectedState (snd (processHeartRate trackingEngine 1000 lowBatch))
     \<and> fingerDetected (fst (processHeartRate trackingEngine 1000 lowBatch))
     \<and> \<not> fingerDetectedState
           (snd (processHeartRate (snd (processHeartRate trackingEngine 1000 lowBatch)) 1500 lowBatch))
     \<and> \<not> fingerDetected
           (fst (processHeartRate (snd (processHeartRate trackingEngine 1000 lowBatch)) 1500 lowBatch))"
    using two held low by blast
  then have b: "consecutiveLowSignalBatches (snd (processHeartRate trackingEngine 1000 lowBatch)) \<ge> 1"
    using again by blast
  have c: "fingerDetectedState (snd (processHeartRate initialEngine 2000 goodBatch))
     \<and> fingerDetected (fst (processHeartRate initialEngine 2000 goodBatch))
     \<and> consecutiveLowSignalBatches (snd (processHeartRate initialEngine 2000 goodBatch)) = 0"
    using fresh good by blast
  have d: "snd (processHeartRate trackingEngine 1000 shortBatch) = trackingEngine
     \<and> \<not> fingerDetected (fst (processHeartRate trackingEngine 1000 shortBatch))"
    using two short by blast
  show ?thesis
    using len held low good a b c short d by blast
qed

text \<open>
  Claim C5 as stated speaks of any batch. A batch of 99 samples returns before the
  contact is examined: with contact established and all 99 samples low, or all good, the
  result has \<open>fingerDetected\<close> false; and 99 good samples neither establish contact on the
  initial engine nor clear the low-signal counter after a low batch.
\<close>

theorem C5_short_batch_counterexample:
  "fingerDetectedState trackingEngine \<and> consecutiveLowSignalBatches trackingEngine = 0
   \<and> percentBelowThreshold shortLowBatch \<ge> 70
   \<and> \<not> fingerDetected (fst (processHeartRate trackingEngine 1000 shortLowBatch))
   \<and> percentBelowThreshold shortBatch < 70
   \<and> \<not> fingerDetected (fst (processHeartRate trackingEngine 1000 shortBatch))
   \<and> \<not> fingerDetectedState (snd (processHeartRate initialEngine 1000 shortBatch))
   \<and> consecutiveLowSignalBatches
         (snd (processHeartRate (snd (processHeartRate trackingEngine 1000 lowBatch)) 1500 shortBatch))
       = 1"
  by code_simp

section \<open>Stability and phase\<close>

text \<open>
  Claim C7. After a batch processed with contact held, \<open>isStable\<close> is true exactly when
  the history holds at least three readings and any two of its first four differ by at
  most 15; and once \<open>batchesReceived\<close> has reached 5, the phase of the result is
  \<open>tracking\<close> when \<open>isStable\<close> is true and \<open>stabilizing\<close> otherwise.
\<close>

theorem C7_stability_and_phase:
  assumes "100 \<le> length xs" and "fingerDetectedState (detectFinger s xs)"
  shows "(isStable (snd (processHeartRate s t xs)) \<longleftrightarrow>
            3 \<le> length (recentHeartRates (snd (processHeartRate s t xs)))
            \<and> (\<forall>i j. i < j \<and> j < min 4 (length (recentHeartRates (snd (processHeartRate s t xs))))
                   \<longrightarrow> \<bar>recentHeartRates (snd (processHeartRate s t xs)) ! i
                        - recentHeartRates (snd (processHeartRate s t xs)) ! j\<bar> \<le> 15))
       \<and> (5 \<le> batchesReceived (snd (processHeartRate s t xs)) \<longrightarrow>
            phase (fst (processHeartRate s t xs)) =
              (if isStable (snd (processHeartRate s t xs)) then ''tracking'' else ''stabilizing''))"
  using assms
  by (simp add: processHeartRate_contact finishBatch_engine finishBatch_response checkStable_def
      readingsInRange_iff MIN_BATCHES_FOR_DISPLAY_def)

text \<open>The readings 72, 74, 70, 73 at the fifth batch: stable, and tracking.\<close>

theorem C7_stability_and_phase_witness:
  "100 \<le> length goodBatch \<and> fingerDetectedState (detectFinger steadyEngine goodBatch)
   \<and> recentHeartRates (snd (processHeartRate steadyEngine 3000 goodBatch)) = [72, 74, 70, 73]
   \<and> batchesReceived (snd (processHeartRate steadyEngine 3000 goodBatch)) = 5
   \<and> isStable (snd (processHeartRate steadyEngine 3000 goodBatch))
   \<and> phase (fst (processHeartRate steadyEngine 3000 goodBatch)) = ''tracking''"
proof -
  have len: "100 \<le> length goodBatch"
    by (simp add: goodBatch_def)
  have held: "fingerDetectedState (detectFinger steadyEngine goodBatch)"
    by code_simp
  have hist: "recentHeartRates (snd (processHeartRate steadyEngine 3000 goodBatch)) = [72, 74, 70, 73]"
    by code_simp
  have five: "batchesReceived (snd (processHeartRate steadyEngine 3000 goodBatch)) = 5"
    by code_simp
  note inst = C7_stability_and_phase [OF len held, of 3000]
  have "readingsInRange [72, 74, 70, 73]"
    by (simp add: readingsInRange_def)
  then have close: "\<forall>i j. i < j \<and> j < min 4 (length [72, 74, 70, 73 :: int])
                 \<longrightarrow> \<bar>[72, 74, 70, 73 :: int] ! i - [72, 74, 70, 73] ! j\<bar> \<le> 15"
    by (rule readingsInRange_iff [THEN iffD1])
  have stable: "isStable (snd (processHeartRate steadyEngine 3000 goodBatch))"
    using inst close unfolding hist by simp
  have "phase (fst (processHeartRate steadyEngine 3000 goodBatch)) = ''tracking''"
    using inst stable five by simp
  then show ?thesis
    using len held hist five stable by blast
qed

section \<open>Quality and confidence\<close>

text \<open>
  Claim C9. In the result of every call, \<open>quality\<close> and \<open>confidence\<close> are 0.8 when
  \<open>fingerDetected\<close> is true and 0 when it is false: they depend on that flag alone.
\<close>

theorem C9_constant_confidence:
  "quality (fst (processHeartRate s t xs))
     = (if fingerDetected (fst (processHeartRate s t xs)) then 0.8 else 0)
   \<and> confidence (fst (processHeartRate s t xs))
     = (if fingerDetected (fst (processHeartRate s t xs)) then 0.8 else 0)"
proof (cases "length xs < 100")
  case True
  then show ?thesis by (simp add: processHeartRate_short noSignalResponse_def)
next
  case long: False
  show ?thesis
  proof (cases "fingerDetectedState (detectFinger s xs)")
    case True
    with long show ?thesis by (simp add: processHeartRate_contact finishBatch_response)
  next
    case False
    with long show ?thesis by (simp add: processHeartRate_lost noSignalResponse_def)
  qed
qed

text \<open>A batch with contact, and one without.\<close>

theorem C9_constant_confidence_witness:
  "fingerDetected (fst (processHeartRate trackingEngine 1000 goodBatch))
   \<and> quality (fst (processHeartRate trackingEngine 1000 goodBatch)) = 0.8
   \<and> confidence (fst (processHeartRate trackingEngine 1000 goodBatch)) = 0.8
   \<and> \<not> fingerDetected (fst (processHeartRate initialEngine 1000 lowBatch))
   \<and> quality (fst (processHeartRate initialEngine 1000 lowBatch)) = 0
   \<and> confidence (fst (processHeartRate initialEngine 1000 lowBatch)) = 0"
proof -
  have on: "fingerDetected (fst (processHeartRate trackingEngine 1000 goodBatch))"
    by code_simp
  have off: "\<not> fingerDetected (fst (processHeartRate initialEngine 1000 lowBatch))"
    by code_simp
  show ?thesis
    using C9_constant_confidence [of trackingEngine 1000 goodBatch]
      C9_constant_confidence [of initialEngine 1000 lowBatch] on off
    by simp
qed

section \<open>The initial correction\<close>

text \<open>
  Two bounds on rounding are enough here: a nonnegative number rounds to a nonnegative
  double that is at most twice as large.
\<close>

lemma js_round_le: "real_of_int (js_round x) \<le> x + 1 / 2"
  by (simp add: js_round_def)

lemma pow2_pos: "0 < pow2 k"
  by (simp add: pow2_def)

lemma roundEven_bounds:
  assumes "0 \<le> y"
  shows "0 \<le> roundEven y" and "real_of_int (roundEven y) \<le> 2 * y"
proof -
  define f where "f = \<lfloor>y\<rfloor>"
  define d where "d = y - real_of_int f"
  have f: "0 \<le> f" using assms by (simp add: f_def)
  have d: "0 \<le> d" "d < 1" "y = real_of_int f + d"
    unfolding d_def f_def by linarith+
  have r: "roundEven y = (if d < 1 / 2 then f else if 1 / 2 < d then f + 1
                          else if even f then f else f + 1)"
    by (simp add: roundEven_def Let_def f_def d_def)
  show "0 \<le> roundEven y"
    using f by (simp add: r)
  consider (down) "roundEven y = f" | (up) "roundEven y = f + 1" "1 / 2 \<le> d"
    unfolding r by (cases "d < 1 / 2"; cases "1 / 2 < d"; cases "even f") auto
  then show "real_of_int (roundEven y) \<le> 2 * y"
  proof cases
    case down
    then show ?thesis using f d by simp
  next
    case up
    then show ?thesis using f d by simp
  qed
qed

lemma fl_bounds:
  assumes "0 \<le> x"
  shows "0 \<le> fl x" and "fl x \<le> 2 * x"
proof -
  define q where "q = pow2 (max (binade x) (- 1022) - 52)"
  have q: "0 < q" by (simp add: q_def pow2_pos)
  then have y: "0 \<le> x / q" using assms by simp
  have eq: "x \<noteq> 0 \<Longrightarrow> fl x = real_of_int (roundEven (x / q)) * q"
    by (simp add: fl_def Let_def q_def)
  show "0 \<le> fl x"
  proof (cases "x = 0")
    case True
    then show ?thesis by (simp add: fl_def)
  next
    case False
    then show ?thesis using roundEven_bounds(1) [OF y] q by (simp add: eq)
  qed
  show "fl x \<le> 2 * x"
  proof (cases "x = 0")
    case True
    then show ?thesis by (simp add: fl_def)
  next
    case False
    have "real_of_int (roundEven (x / q)) * q \<le> (2 * (x / q)) * q"
      using roundEven_bounds(2) [OF y] q by (intro mult_right_mono) simp_all
    then show ?thesis using False q by (simp add: eq)
  qed
qed

lemma literals:
  "0 \<le> fl 0.15" "fl 0.15 \<le> 16 / 100" "0 \<le> fl 0.10" "fl 0.10 \<le> 16 / 100"
  "0 \<le> fl 0.05" "fl 0.05 \<le> 16 / 100" "fmul 1 (fl 0.05) \<le> 6 / 100"
  by code_simp+

lemma factor_table:
  "\<forall>b \<in> set [0..<11]. max 0 (fsub 1 (fdiv (real b) 10)) \<le> 1"
  by code_simp

lemma correctionFactor_range:
  assumes "b \<le> 10"
  shows "0 \<le> max 0 (fsub 1 (fdiv (real b) 10))" and "max 0 (fsub 1 (fdiv (real b) 10)) \<le> 1"
proof -
  show "0 \<le> max 0 (fsub 1 (fdiv (real b) 10))" by simp
  have "b \<in> set [0..<11]" using assms by simp
  then show "max 0 (fsub 1 (fdiv (real b) 10)) \<le> 1"
    using factor_table by blast
qed

lemma correction_small:
  assumes "0 < rate" and "0 \<le> c" and "c \<le> 16 / 100" and "0 \<le> cf" and "cf \<le> 1"
    and one: "rate = 1 \<longrightarrow> fmul 1 c \<le> 6 / 100"
  shows "js_round (fmul (fmul (real_of_int rate) c) cf) < rate"
proof -
  define p where "p = fmul (real_of_int rate) c"
  have p0: "0 \<le> p" and p2: "p \<le> 2 * (real_of_int rate * c)"
    unfolding p_def fmul_def using assms(1,2) by (simp_all add: fl_bounds)
  have "fmul p cf \<le> 2 * (p * cf)"
    unfolding fmul_def using p0 assms(4) by (simp add: fl_bounds)
  also have "p * cf \<le> p * 1"
    using p0 assms(5) by (intro mult_left_mono) simp_all
  finally have step: "fmul p cf \<le> 2 * p" by simp
  have "fmul p cf + 1 / 2 < real_of_int rate"
  proof (cases "rate = 1")
    case True
    then have "p \<le> 6 / 100" using one by (simp add: p_def)
    then show ?thesis using step True by simp
  next
    case False
    then have big: "2 \<le> real_of_int rate" using assms(1) by simp
    have "real_of_int rate * c \<le> real_of_int rate * (16 / 100)"
      using assms(1,3) by (intro mult_left_mono) simp_all
    then have "fmul p cf \<le> real_of_int rate * (64 / 100)"
      using step p2 by simp
    then show ?thesis using big by simp
  qed
  then have "real_of_int (js_round (fmul p cf)) < real_of_int rate"
    using js_round_le [of "fmul p cf"] by linarith
  then show ?thesis by (simp add: p_def)
qed

lemma initialCorrection_formula:
  assumes "0 < rate" and "batches \<le> 10"
  shows "initialCorrection batches rate =
           rate - js_round (fmul (fmul (real_of_int rate)
                                   (fl (if rate \<ge> 130 then 0.15 else if rate \<ge> 110 then 0.10
                                        else 0.05)))
                              (max 0 (fsub 1 (fdiv (real batches) 10))))"
  using assms
  by (simp add: initialCorrection_def MIN_BATCHES_FOR_DISPLAY_def VIGOROUS_THRESHOLD_def Let_def)

lemma initialCorrection_pos:
  assumes "0 < rate"
  shows "0 < initialCorrection batches rate"
proof (cases "batches \<le> 10")
  case False
  then show ?thesis using assms
    by (simp add: initialCorrection_def MIN_BATCHES_FOR_DISPLAY_def)
next
  case True
  define c :: real where
    "c = fl (if rate \<ge> 130 then 0.15 else if rate \<ge> 110 then 0.10 else 0.05)"
  have c: "0 \<le> c" "c \<le> 16 / 100"
    unfolding c_def using literals by auto
  have one: "rate = 1 \<longrightarrow> fmul 1 c \<le> 6 / 100"
    unfolding c_def using literals by auto
  have "js_round (fmul (fmul (real_of_int rate) c) (max 0 (fsub 1 (fdiv (real batches) 10)))) < rate"
    using assms c correctionFactor_range [OF True] one by (rule correction_small)
  then show ?thesis
    using initialCorrection_formula [OF assms True] by (simp add: c_def)
qed

text \<open>
  Where the exact product is half an integer the doubles decide: at the eighth batch the
  factor is \<open>1 - 0.8 = 0.19999999999999996\<close>, and a rate of 50 loses nothing where
  \<open>50 * 0.05 * 0.2 = 0.5\<close> would round to 1.
\<close>

lemma initialCorrection_ties:
  "initialCorrection 8 50 = 50" "initialCorrection 9 100 = 100"
  "initialCorrection 8 125 = 123" "initialCorrection 8 150 = 146"
  by code_simp+



text \<open>
  Claim C10. For a positive computed rate in a batch with \<open>batchesReceived <= 10\<close>, the
  engine subtracts \<open>Math.round(rate * c * Math.max(0, 1 - batchesReceived / 10))\<close>, the
  products, the quotient and the difference being those of doubles, with \<open>c\<close> 0.15 from
  130 up, 0.10 from 110 up and 0.05 below; the corrected rate is positive, and it is the
  corrected rate that enters the history and the result. The corrected rate can fall
  below 40: a computed 40 becomes 38 at the first batch and 39 at the fifth.
\<close>

theorem C10_initial_correction:
  assumes "0 < fst calc" and "batchesReceived s \<le> 10"
  shows "correctedRate s calc =
           fst calc - js_round (fmul (fmul (real_of_int (fst calc))
                                   (fl (if fst calc \<ge> 130 then 0.15
                                        else if fst calc \<ge> 110 then 0.10 else 0.05)))
                              (max 0 (fsub 1 (fdiv (real (batchesReceived s)) 10))))
       \<and> 0 < correctedRate s calc
       \<and> recentHeartRates (snd (finishBatch s t xs calc)) \<noteq> []
       \<and> hd (recentHeartRates (snd (finishBatch s t xs calc))) = correctedRate s calc
       \<and> map_option dbg_calculatedRate (debug (fst (finishBatch s t xs calc)))
           = Some (correctedRate s calc)
       \<and> initialCorrection 1 40 = 38 \<and> initialCorrection 5 40 = 39"
proof -
  have pos: "0 < correctedRate s calc"
    using assms(1) by (simp add: correctedRate_def initialCorrection_pos)
  have hist: "recentHeartRates (afterRecording s t calc) \<noteq> []
              \<and> hd (recentHeartRates (afterRecording s t calc)) = correctedRate s calc"
    using pos by (simp add: afterRecording_def recordReading_def Let_def MAX_HISTORY_def)
  have ex: "initialCorrection 1 40 = 38 \<and> initialCorrection 5 40 = 39"
    by code_simp
  have eq: "correctedRate s calc =
           fst calc - js_round (fmul (fmul (real_of_int (fst calc))
                                   (fl (if fst calc \<ge> 130 then 0.15
                                        else if fst calc \<ge> 110 then 0.10 else 0.05)))
                              (max 0 (fsub 1 (fdiv (real (batchesReceived s)) 10))))"
    unfolding correctedRate_def by (rule initialCorrection_formula [OF assms])
  have out: "recentHeartRates (snd (finishBatch s t xs calc)) \<noteq> []
       \<and> hd (recentHeartRates (snd (finishBatch s t xs calc))) = correctedRate s calc
       \<and> map_option dbg_calculatedRate (debug (fst (finishBatch s t xs calc)))
           = Some (correctedRate s calc)"
    using hist by (simp add: finishBatch_engine finishBatch_response)
  show ?thesis
    using eq pos out ex by blast
qed

text \<open>A computed 40: stored as 38 at the first batch, displayed as 39 at the fifth.\<close>

theorem C10_initial_correction_witness:
  "0 < fst ((40, [100, 325, 550]) :: int \<times> nat list) \<and> batchesReceived earlyEngine \<le> 10
   \<and> correctedRate earlyEngine (40, [100, 325, 550]) = 38
   \<and> recentHeartRates (snd (finishBatch earlyEngine 700 goodBatch (40, [100, 325, 550]))) = [38]
   \<and> hd (recentHeartRates (snd (finishBatch earlyEngine 700 goodBatch (40, [100, 325, 550]))))
       = 38
   \<and> heartRate (fst (finishBatch fifthEngine 700 goodBatch (40, [100, 325, 550]))) = 39"
proof -
  have pos: "0 < fst ((40, [100, 325, 550]) :: int \<times> nat list)"
    by simp
  have early: "batchesReceived earlyEngine \<le> 10"
    by (simp add: earlyEngine_def initialEngine_def)
  note inst = C10_initial_correction [OF pos early, of 700 goodBatch]
  have rate: "correctedRate earlyEngine (40, [100, 325, 550]) = 38"
    by code_simp
  have hd: "hd (recentHeartRates (snd (finishBatch earlyEngine 700 goodBatch (40, [100, 325, 550]))))
              = 38"
    using inst rate by simp
  have "recentHeartRates (snd (finishBatch earlyEngine 700 goodBatch (40, [100, 325, 550]))) = [38]"
    by code_simp
  moreover have "heartRate (fst (finishBatch fifthEngine 700 goodBatch (40, [100, 325, 550]))) = 39"
    by code_simp
  ultimately show ?thesis
    using pos early rate hd by blast
qed

section \<open>Warm-up suppression\<close>

lemma restrictVigorous_first_minute:
  assumes "130 \<le> final"
    and "timeSinceFirstDisplay s t < 60000"
    and "int (consecutiveHighZoneReadings s)
           < max 5 (js_round (5 + real_of_int (60000 - timeSinceFirstDisplay s t) / 15000))"
  shows "restrictVigorous s t final =
           (if 0 < lastDisplayedHeartRate s then min 125 (lastDisplayedHeartRate s + 5) else 125)"
  using assms
  by (simp add: restrictVigorous_def requiredStreak_def Let_def VIGOROUS_THRESHOLD_def
      MIN_HIGH_ZONE_STREAK_def min_def)

text \<open>
  Claim C1. In a batch processed with contact held (\<open>processHeartRate\<close> is then
  \<open>finishBatch\<close>, by \<open>processHeartRate_contact\<close>), when the final rate before the
  restriction is at least 130, less than 60 seconds have passed since \<open>firstDisplayTime\<close>
  and \<open>consecutiveHighZoneReadings\<close> is below
  \<open>max(5, round(5 + (60000 - elapsed) / 15000))\<close>, the final rate is capped at 125, and
  at \<open>lastDisplayedHeartRate + 5\<close> when a rate was displayed before and is lower; the rate
  in the result is the final rate, or 0 during acquisition.
\<close>

theorem C1_warmup_suppression:
  assumes "130 \<le> consensusOf s t calc"
    and "timeSinceFirstDisplay (afterRecording s t calc) t < 60000"
    and "int (consecutiveHighZoneReadings (afterRecording s t calc))
           < max 5 (js_round (5 + real_of_int
                      (60000 - timeSinceFirstDisplay (afterRecording s t calc) t) / 15000))"
  shows "finalHeartRate s t calc \<le> 125
       \<and> (0 < lastDisplayedHeartRate s \<and> lastDisplayedHeartRate s < consensusOf s t calc
            \<longrightarrow> finalHeartRate s t calc \<le> lastDisplayedHeartRate s + 5)
       \<and> finalHeartRate s t calc
           = (if 0 < lastDisplayedHeartRate s then min 125 (lastDisplayedHeartRate s + 5) else 125)
       \<and> map_option dbg_finalRate (debug (fst (finishBatch s t xs calc)))
           = Some (finalHeartRate s t calc)
       \<and> heartRate (fst (finishBatch s t xs calc)) \<le> finalHeartRate s t calc"
proof -
  have last: "lastDisplayedHeartRate (afterRecording s t calc) = lastDisplayedHeartRate s"
    by (simp add: afterRecording_def)
  have eq: "finalHeartRate s t calc
              = (if 0 < lastDisplayedHeartRate s then min 125 (lastDisplayedHeartRate s + 5) else 125)"
    unfolding finalHeartRate_def
    using restrictVigorous_first_minute [OF assms] by (simp add: last)
  then have "0 < finalHeartRate s t calc"
    by (simp split: if_splits)
  then have "heartRate (fst (finishBatch s t xs calc)) \<le> finalHeartRate s t calc"
    by (simp add: finishBatch_response)
  then show ?thesis
    using eq by (simp add: finishBatch_response)
qed

text \<open>
  A rate of 150 computed ten seconds after the first display, the first high reading of
  its streak, with 115 displayed last: the final rate is 120.
\<close>

theorem C1_warmup_suppression_witness:
  "consensusOf warmEngine 11000 (150, [40, 100, 160]) = 150
   \<and> timeSinceFirstDisplay (afterRecording warmEngine 11000 (150, [40, 100, 160])) 11000 = 10000
   \<and> consecutiveHighZoneReadings (afterRecording warmEngine 11000 (150, [40, 100, 160])) = 1
   \<and> lastDisplayedHeartRate warmEngine = 115
   \<and> finalHeartRate warmEngine 11000 (150, [40, 100, 160]) = 120
   \<and> heartRate (fst (finishBatch warmEngine 11000 goodBatch (150, [40, 100, 160]))) = 120"
proof -
  have c: "consensusOf warmEngine 11000 (150, [40, 100, 160]) = 150"
    by code_simp
  have e: "timeSinceFirstDisplay (afterRecording warmEngine 11000 (150, [40, 100, 160])) 11000 = 10000"
    by code_simp
  have k: "consecutiveHighZoneReadings (afterRecording warmEngine 11000 (150, [40, 100, 160])) = 1"
    by code_simp
  have l: "lastDisplayedHeartRate warmEngine = 115"
    by code_simp
  have shown: "heartRate (fst (finishBatch warmEngine 11000 goodBatch (150, [40, 100, 160]))) = 120"
    by code_simp
  have "finalHeartRate warmEngine 11000 (150, [40, 100, 160]) = 120"
    using C1_warmup_suppression [of warmEngine 11000 "(150, [40, 100, 160])" goodBatch]
    unfolding c e k l by (simp add: js_round_def)
  then show ?thesis
    using c e k l shown by blast
qed


section \<open>Zone classification\<close>

lemma find_zone:
  "find (\<lambda>z. bpm \<le> upperLimit z) HR_ZONES =
     (if bpm \<le> 90 then Some (HR_ZONES ! 0) else if bpm \<le> 110 then Some (HR_ZONES ! 1)
      else if bpm \<le> 130 then Some (HR_ZONES ! 2) else if bpm \<le> 150 then Some (HR_ZONES ! 3)
      else if bpm \<le> 170 then Some (HR_ZONES ! 4) else if bpm \<le> 240 then Some (HR_ZONES ! 5)
      else None)"
  by (simp add: HR_ZONES_def)

text \<open>
  Claim C2, as the code has it. For a positive final rate the zone is the first entry of
  \<open>HR_ZONES\<close> whose upper limit is at or above the rate: Rest up to 90, Light up to 110,
  Moderate up to 130, Vigorous up to 150, High up to 170, Maximum up to 240. A rate above
  240 matches no entry and keeps the default, Rest.
\<close>

theorem C2_zone_lookup:
  assumes "0 < bpm"
  shows "(\<forall>i < length HR_ZONES.
            bpm \<le> upperLimit (HR_ZONES ! i) \<and> (\<forall>j < i. upperLimit (HR_ZONES ! j) < bpm)
            \<longrightarrow> determineZone bpm = HR_ZONES ! i)
       \<and> ((\<forall>z \<in> set HR_ZONES. upperLimit z < bpm) \<longrightarrow> determineZone bpm = HR_ZONES ! 0)
       \<and> name (determineZone bpm) =
           (if bpm \<le> 90 then ''Rest'' else if bpm \<le> 110 then ''Light''
            else if bpm \<le> 130 then ''Moderate'' else if bpm \<le> 150 then ''Vigorous''
            else if bpm \<le> 170 then ''High'' else if bpm \<le> 240 then ''Maximum''
            else ''Rest'')"
proof (intro conjI allI impI)
  fix i
  assume i: "i < length HR_ZONES"
    and first: "bpm \<le> upperLimit (HR_ZONES ! i) \<and> (\<forall>j < i. upperLimit (HR_ZONES ! j) < bpm)"
  have "find (\<lambda>z. bpm \<le> upperLimit z) HR_ZONES = Some (HR_ZONES ! i)"
    unfolding find_Some_iff using i first by (intro exI [of _ i]) auto
  then show "determineZone bpm = HR_ZONES ! i"
    using assms by (simp add: determineZone_def)
next
  assume "\<forall>z \<in> set HR_ZONES. upperLimit z < bpm"
  then have "find (\<lambda>z. bpm \<le> upperLimit z) HR_ZONES = None"
    unfolding find_None_iff by auto
  then show "determineZone bpm = HR_ZONES ! 0"
    by (simp add: determineZone_def)
next
  show "name (determineZone bpm) =
           (if bpm \<le> 90 then ''Rest'' else if bpm \<le> 110 then ''Light''
            else if bpm \<le> 130 then ''Moderate'' else if bpm \<le> 150 then ''Vigorous''
            else if bpm \<le> 170 then ''High'' else if bpm \<le> 240 then ''Maximum''
            else ''Rest'')"
    using assms by (simp add: determineZone_def find_zone) (simp add: HR_ZONES_def)
qed

text \<open>The rates 90, 91, 130, 131, 240 and 241 of the claim.\<close>

theorem C2_zone_lookup_witness:
  "name (determineZone 90) = ''Rest'' \<and> name (determineZone 91) = ''Light''
   \<and> name (determineZone 130) = ''Moderate'' \<and> name (determineZone 131) = ''Vigorous''
   \<and> name (determineZone 240) = ''Maximum'' \<and> name (determineZone 241) = ''Rest''
   \<and> determineZone 100 = HR_ZONES ! 1"
proof -
  note by_name = C2_zone_lookup [THEN conjunct2, THEN conjunct2]
  note by_index = C2_zone_lookup [THEN conjunct1, rule_format]
  have "determineZone 100 = HR_ZONES ! 1"
    by (rule by_index) (simp_all add: HR_ZONES_def)
  moreover have "name (determineZone 90) = ''Rest''"
    using by_name [of 90] by simp
  moreover have "name (determineZone 91) = ''Light''"
    using by_name [of 91] by simp
  moreover have "name (determineZone 130) = ''Moderate''"
    using by_name [of 130] by simp
  moreover have "name (determineZone 131) = ''Vigorous''"
    using by_name [of 131] by simp
  moreover have "name (determineZone 240) = ''Maximum''"
    using by_name [of 240] by simp
  moreover have "name (determineZone 241) = ''Rest''"
    using by_name [of 241] by simp
  ultimately show ?thesis
    by blast
qed

text \<open>
  Claim C2 as stated has 241 fall into Maximum. The loop finds no entry for 241 and the
  zone stays \<open>HR_ZONES[0]\<close>.
\<close>

theorem C2_catch_all_counterexample:
  "name (determineZone 241) = ''Rest'' \<and> name (determineZone 241) \<noteq> ''Maximum''"
  by code_simp

section \<open>The interval method\<close>

lemma peakIntervals_nth:
  "Suc k < length peaks \<Longrightarrow> peakIntervals peaks ! k = int (peaks ! Suc k) - int (peaks ! k)"
  using nth_upt [of 1 k "length peaks"] by (simp add: peakIntervals_def)

lemma plausible_range: "plausible r = 0 \<or> (40 \<le> plausible r \<and> plausible r \<le> 200)"
  by (simp add: plausible_def)

text \<open>
  Claim C3, as the code has it. The gaps are the differences of consecutive peak indices;
  a gap is kept when it lies within 37 and 300 samples (240 and 30 beats per minute at
  150 Hz); with at least three peaks and at least one gap kept, the method converts the
  mean of the kept gaps by \<open>round(60 * 150 / mean)\<close> and keeps the rate when it lies
  within 40 and 200.
\<close>

theorem C3_interval_method:
  "length (peakIntervals peaks) = length peaks - 1
   \<and> (\<forall>k. Suc k < length peaks
          \<longrightarrow> peakIntervals peaks ! k = int (peaks ! Suc k) - int (peaks ! k))
   \<and> set (filter validInterval (peakIntervals peaks))
       = {g \<in> set (peakIntervals peaks). 37 \<le> g \<and> g \<le> 300}
   \<and> (filter validInterval (peakIntervals peaks) = [] \<longrightarrow> intervalMethod peaks = 0)
   \<and> (filter validInterval (peakIntervals peaks) \<noteq> [] \<longrightarrow>
        intervalMethod peaks =
          plausible (js_round (60 * 150
             / (real_of_int (sum_list (filter validInterval (peakIntervals peaks)))
                / real (length (filter validInterval (peakIntervals peaks)))))))
   \<and> (0 < intervalMethod peaks \<longrightarrow>
        1 \<le> length (filter validInterval (peakIntervals peaks))
        \<and> 40 \<le> intervalMethod peaks \<and> intervalMethod peaks \<le> 200)
   \<and> (3 \<le> length peaks \<and> 0 < intervalMethod peaks
        \<longrightarrow> rateFromPeaks n peaks = intervalMethod peaks)
   \<and> (length peaks < 3 \<longrightarrow> rateFromPeaks n peaks = 0)"
proof -
  have range: "0 < intervalMethod peaks \<longrightarrow>
        1 \<le> length (filter validInterval (peakIntervals peaks))
        \<and> 40 \<le> intervalMethod peaks \<and> intervalMethod peaks \<le> 200"
    using plausible_range
    by (auto simp: intervalMethod_def Let_def plausible_def Suc_le_eq split: if_splits)
  have first: "3 \<le> length peaks \<and> 0 < intervalMethod peaks
        \<longrightarrow> rateFromPeaks n peaks = intervalMethod peaks"
    by (simp add: rateFromPeaks_def Let_def)
  show ?thesis
    using range first
    by (auto simp: peakIntervals_nth validInterval_def intervalMethod_def Let_def rateFromPeaks_def
        peakIntervals_def)
qed

text \<open>Peaks at 0, 40, 140, 240: all three gaps are kept, their mean is 80.\<close>

theorem C3_interval_method_witness:
  "peakIntervals [0, 40, 140, 240] ! 0 = 40
   \<and> set (filter validInterval (peakIntervals [0, 40, 140, 240])) = {40, 100}
   \<and> intervalMethod [0, 40, 140, 240] = 113
   \<and> rateFromPeaks 1000 [0, 40, 140, 240] = 113
   \<and> intervalMethod [0, 400, 800] = 0"
proof -
  note inst = C3_interval_method [of "[0, 40, 140, 240]" 1000]
  have gaps: "filter validInterval (peakIntervals [0, 40, 140, 240]) = [40, 100, 100]"
    by code_simp
  have rate: "intervalMethod [0, 40, 140, 240] = 113"
    using inst unfolding gaps by (simp add: plausible_def js_round_def)
  have none: "filter validInterval (peakIntervals [0, 400, 800]) = []"
    by code_simp
  have zero: "intervalMethod [0, 400, 800] = 0"
    using C3_interval_method [of "[0, 400, 800]" 1000] none by blast
  have nth: "peakIntervals [0, 40, 140, 240] ! 0 = 40"
    using inst by simp
  have whole: "rateFromPeaks 1000 [0, 40, 140, 240] = 113"
    using inst rate by simp
  show ?thesis
    using nth gaps rate whole zero by simp
qed

text \<open>
  Claim C3 as stated keeps only gaps within 45 and 225 samples and needs two of them.
  The code keeps the gap 40 (the rate is 113, where the gaps 100 and 100 alone would give
  90) and the gap 300, and it produces the rate 90 from the single kept gap 100.
\<close>

theorem C3_interval_method_counterexample:
  "filter validInterval (peakIntervals [0, 40, 140, 240]) = [40, 100, 100]
   \<and> intervalMethod [0, 40, 140, 240] = 113
   \<and> filter validInterval (peakIntervals [0, 300, 450, 600]) = [300, 150, 150]
   \<and> intervalMethod [0, 300, 450, 600] = 45
   \<and> filter validInterval (peakIntervals [0, 100, 500, 900]) = [100]
   \<and> intervalMethod [0, 100, 500, 900] = 90
   \<and> rateFromPeaks 1000 [0, 100, 500, 900] = 90"
  by code_simp

section \<open>Jump limiting in the advanced module\<close>

lemma appendToBuffer_frame [simp]:
  "lastHeartRate (appendToBuffer st xs) = lastHeartRate st"
  "lastCalculation (appendToBuffer st xs) = lastCalculation st"
  "smoothedHeartRate (appendToBuffer st xs) = smoothedHeartRate st"
  "heartRateHistory (appendToBuffer st xs) = heartRateHistory st"
  "confidenceScores (appendToBuffer st xs) = confidenceScores st"
  by (simp_all add: appendToBuffer_def Let_def)

lemma processHeartRateAdvanced_accept:
  assumes "SAMPLE_RATE * 2 \<le> length (ppgBuffer (appendToBuffer st xs))"
    and "assessSignalQuality h (ppgBuffer (appendToBuffer st xs)) > 0.3"
    and "\<not> (now - lastCalculation st < 500 \<and> smoothedHeartRate st > 0)"
    and "0 < fst (calculateHeartRate h (ppgBuffer (appendToBuffer st xs)))"
  shows "processHeartRateAdvanced h st now xs =
           acceptReading h ((appendToBuffer st xs)\<lparr>hr_fingerDetected := True, lastCalculation := now\<rparr>)
             now (calculateHeartRate h (ppgBuffer (appendToBuffer st xs)))"
  using assms by (auto simp: processHeartRateAdvanced_def Let_def)

lemma limitJump_far:
  assumes "0 < lastRate" and "\<bar>raw - lastRate\<bar> > MAX_JUMP"
  shows "limitJump lastRate (raw, conf)
           = (if raw > lastRate then lastRate + 15 else lastRate - 15, conf * 0.7)"
  using assms by (simp add: limitJump_def MAX_JUMP_def)

lemma storeReading_last: "lastHeartRate (storeReading st now limited) = fst limited"
  by (simp add: storeReading_def Let_def)

lemma storeReading_rate: "hd (heartRateHistory (storeReading st now limited)) = fst limited"
  by (cases "heartRateHistory st") (simp_all add: storeReading_def Let_def)

lemma storeReading_conf:
  assumes "length (confidenceScores st) = length (heartRateHistory st)"
  shows "hd (confidenceScores (storeReading st now limited)) = snd limited"
  using assms by (cases "confidenceScores st") (auto simp: storeReading_def Let_def)

lemma later_stages_frame [simp]:
  "lastHeartRate (countStability h st) = lastHeartRate st"
  "heartRateHistory (countStability h st) = heartRateHistory st"
  "confidenceScores (countStability h st) = confidenceScores st"
  "signalQuality (countStability h st) = signalQuality st"
  "lastHeartRate (smoothDisplay st limited) = lastHeartRate st"
  "heartRateHistory (smoothDisplay st limited) = heartRateHistory st"
  "confidenceScores (smoothDisplay st limited) = confidenceScores st"
  "signalQuality (smoothDisplay st limited) = snd limited"
  by (simp_all add: countStability_def smoothDisplay_def)

lemma acceptReading_sel:
  "lastHeartRate (snd (acceptReading h st now result)) = fst (limitJump (lastHeartRate st) result)"
  "hd (heartRateHistory (snd (acceptReading h st now result)))
     = fst (limitJump (lastHeartRate st) result)"
  "signalQuality (snd (acceptReading h st now result)) = snd (limitJump (lastHeartRate st) result)"
  "rd_quality (fst (acceptReading h st now result)) = snd (limitJump (lastHeartRate st) result)"
  "length (confidenceScores st) = length (heartRateHistory st) \<Longrightarrow>
     hd (confidenceScores (snd (acceptReading h st now result)))
       = snd (limitJump (lastHeartRate st) result)"
  by (simp_all add: acceptReading_def Let_def storeReading_last storeReading_rate
      storeReading_conf)

text \<open>
  Claim C6. When the advanced module computes a positive rate, a last accepted rate
  exists and the two differ by more than \<open>MAX_JUMP = 15\<close>, the rate accepted (the new last
  rate, at the front of the history) is the last rate plus 15 if the new one is higher
  and minus 15 if it is lower, and the confidence of the reading is multiplied by 0.7.
\<close>

theorem C6_jump_limiting:
  assumes "SAMPLE_RATE * 2 \<le> length (ppgBuffer (appendToBuffer st xs))"
    and "assessSignalQuality h (ppgBuffer (appendToBuffer st xs)) > 0.3"
    and "\<not> (now - lastCalculation st < 500 \<and> smoothedHeartRate st > 0)"
    and "calculateHeartRate h (ppgBuffer (appendToBuffer st xs)) = (raw, conf)"
    and "0 < raw" and "0 < lastHeartRate st" and "\<bar>raw - lastHeartRate st\<bar> > MAX_JUMP"
  shows "lastHeartRate (snd (processHeartRateAdvanced h st now xs))
           = (if raw > lastHeartRate st then lastHeartRate st + 15 else lastHeartRate st - 15)
       \<and> hd (heartRateHistory (snd (processHeartRateAdvanced h st now xs)))
           = (if raw > lastHeartRate st then lastHeartRate st + 15 else lastHeartRate st - 15)
       \<and> signalQuality (snd (processHeartRateAdvanced h st now xs)) = conf * 0.7
       \<and> rd_quality (fst (processHeartRateAdvanced h st now xs)) = conf * 0.7
       \<and> (length (confidenceScores st) = length (heartRateHistory st)
            \<longrightarrow> hd (confidenceScores (snd (processHeartRateAdvanced h st now xs))) = conf * 0.7)"
proof -
  define st1 where
    "st1 = (appendToBuffer st xs)\<lparr>hr_fingerDetected := True, lastCalculation := now\<rparr>"
  have run: "processHeartRateAdvanced h st now xs = acceptReading h st1 now (raw, conf)"
    using processHeartRateAdvanced_accept [OF assms(1-3)] assms(4,5) by (simp add: st1_def)
  have same: "lastHeartRate st1 = lastHeartRate st"
    "heartRateHistory st1 = heartRateHistory st" "confidenceScores st1 = confidenceScores st"
    by (simp_all add: st1_def)
  have far: "limitJump (lastHeartRate st) (raw, conf)
           = (if raw > lastHeartRate st then lastHeartRate st + 15 else lastHeartRate st - 15,
              conf * 0.7)"
    using limitJump_far [of "lastHeartRate st" raw conf] assms(6,7) by simp
  show ?thesis
    unfolding run by (simp add: acceptReading_sel far same)
qed

lemma flatBatch_buffered:
  "length flatBatch = 300" "ppgBuffer (appendToBuffer priorState flatBatch) = flatBatch"
  by (simp_all add: flatBatch_def appendToBuffer_def priorState_def BUFFER_SIZE_def Let_def)

text \<open>A last rate of 70 and a computed 95: the accepted rate is 85.\<close>

theorem C6_jump_limiting_witness:
  "lastHeartRate priorState = 70
   \<and> calculateHeartRate fixedHelpers (ppgBuffer (appendToBuffer priorState flatBatch)) = (95, 0.9)
   \<and> lastHeartRate (snd (processHeartRateAdvanced fixedHelpers priorState 1000 flatBatch)) = 85
   \<and> hd (heartRateHistory (snd (processHeartRateAdvanced fixedHelpers priorState 1000 flatBatch))) = 85
   \<and> length (confidenceScores priorState) = length (heartRateHistory priorState)
   \<and> hd (confidenceScores (snd (processHeartRateAdvanced fixedHelpers priorState 1000 flatBatch))) = 0.63
   \<and> rd_quality (fst (processHeartRateAdvanced fixedHelpers priorState 1000 flatBatch)) = 0.63"
proof -
  have a: "SAMPLE_RATE * 2 \<le> length (ppgBuffer (appendToBuffer priorState flatBatch))"
    by (simp add: flatBatch_buffered SAMPLE_RATE_def)
  have b: "assessSignalQuality fixedHelpers (ppgBuffer (appendToBuffer priorState flatBatch)) > 0.3"
    by (simp add: fixedHelpers_def)
  have c: "\<not> (1000 - lastCalculation priorState < 500 \<and> smoothedHeartRate priorState > 0)"
    by (simp add: priorState_def)
  have d: "calculateHeartRate fixedHelpers (ppgBuffer (appendToBuffer priorState flatBatch)) = (95, 0.9)"
    by (simp add: fixedHelpers_def)
  have l: "lastHeartRate priorState = 70"
    "length (confidenceScores priorState) = length (heartRateHistory priorState)"
    by (simp_all add: priorState_def)
  have e: "(0::int) < 95" "0 < lastHeartRate priorState" "\<bar>95 - lastHeartRate priorState\<bar> > MAX_JUMP"
    by (simp_all add: priorState_def MAX_JUMP_def)
  show ?thesis
    using C6_jump_limiting [OF a b c d e] l d by simp
qed

section \<open>A new acquisition\<close>

text \<open>
  After a processed batch \<open>isAcquiring\<close> and \<open>fingerDetectedState\<close> agree, as they do in
  the initial engine: the contact goes from false to true exactly where the branch
  \<open>if (!isAcquiring)\<close> runs.
\<close>

lemma acquiring_follows_contact:
  assumes "100 \<le> length xs" and "isAcquiring s = fingerDetectedState s"
  shows "isAcquiring (snd (processHeartRate s t xs)) = fingerDetectedState (snd (processHeartRate s t xs))"
proof (cases "fingerDetectedState (detectFinger s xs)")
  case True
  with assms(1) show ?thesis
    by (simp add: processHeartRate_contact finishBatch_engine appendBatch_def
        startAcquisition_def Let_def)
next
  case False
  with assms(1) show ?thesis
    by (simp add: processHeartRate_lost resetState_def)
qed

lemma recordReading_history:
  "recentHeartRates (recordReading s t computed rate) =
     (if rate > 0
      then (if length (rate # recentHeartRates s) > 4 then butlast (rate # recentHeartRates s)
            else rate # recentHeartRates s)
      else recentHeartRates s)"
  by (auto simp: recordReading_def Let_def MAX_HISTORY_def)

lemma recordReading_first_display:
  "batchesReceived s < 5 \<Longrightarrow> firstDisplayTime (recordReading s t computed rate) = firstDisplayTime s"
  by (simp add: recordReading_def Let_def MIN_BATCHES_FOR_DISPLAY_def)

lemma recordReading_streak:
  "consecutiveHighZoneReadings (recordReading s t computed rate)
     = (if rate \<ge> 130 then consecutiveHighZoneReadings s + 1 else 0)"
  by (simp add: recordReading_def Let_def VIGOROUS_THRESHOLD_def)

text \<open>
  What a batch that takes the contact from false to true does: the acquisition start
  time is the current time, the batch counter is 1 and the sample window holds the
  samples of this batch alone (both reset, then the batch is counted and appended), the
  first-display time is 0 and the high-zone streak counts this batch alone. The history
  is the old history, with the rate of this batch in front when one was computed.
\<close>

lemma newAcquisition_frame:
  assumes "100 \<le> length xs"
    and "\<not> fingerDetectedState s" and "\<not> isAcquiring s"
    and "fingerDetectedState (snd (processHeartRate s t xs))"
  shows "isAcquiring (snd (processHeartRate s t xs))
       \<and> acquisitionStartTime (snd (processHeartRate s t xs)) = t
       \<and> batchesReceived (snd (processHeartRate s t xs)) = 1
       \<and> sampleBuffer (snd (processHeartRate s t xs))
           = (if length xs > 1000 then drop (length xs - 1000) xs else xs)
       \<and> firstDisplayTime (snd (processHeartRate s t xs)) = 0
       \<and> consecutiveHighZoneReadings (snd (processHeartRate s t xs)) \<le> 1
       \<and> (\<exists>rate. map_option dbg_calculatedRate (debug (fst (processHeartRate s t xs))) = Some rate
            \<and> recentHeartRates (snd (processHeartRate s t xs))
                = (if rate > 0
                   then (if length (rate # recentHeartRates s) > 4
                         then butlast (rate # recentHeartRates s)
                         else rate # recentHeartRates s)
                   else recentHeartRates s))"
proof -
  have on: "fingerDetectedState (detectFinger s xs)"
    using assms(1,4) by (simp add: processHeartRate_finger)
  have good: "currentBatchHasFinger xs"
    using on assms(2) by (auto simp: detectFinger_def Let_def split: if_splits)
  define s2 where "s2 = appendBatch (startAcquisition (detectFinger s xs) t) xs"
  have run: "processHeartRate s t xs = finishBatch s2 t xs (calculateRate (sampleBuffer s2))"
    unfolding s2_def using assms(1) on by (rule processHeartRate_contact)
  have s2: "isAcquiring s2" "acquisitionStartTime s2 = t" "batchesReceived s2 = 1"
    "sampleBuffer s2 = (if length xs > 1000 then drop (length xs - 1000) xs else xs)"
    "firstDisplayTime s2 = 0" "consecutiveHighZoneReadings s2 = 0"
    "recentHeartRates s2 = recentHeartRates s"
    using good assms(3)
    by (simp_all add: s2_def appendBatch_def startAcquisition_def detectFinger_def Let_def
        MAX_BUFFER_SIZE_def)
  show ?thesis
    unfolding run
    using s2
    by (simp add: finishBatch_engine finishBatch_response afterRecording_def
        recordReading_history recordReading_first_display recordReading_streak)
qed

lemma resetState_history: "recentHeartRates (resetState s) = recentHeartRates s"
  by (simp add: resetState_def)

lemma lostEngine_eval:
  "lostEngine = initialEngine\<lparr>recentHeartRates := [150, 150, 150], lastDisplayedValue := ''125''\<rparr>"
  by code_simp

lemma regainedEngine_eval:
  "regainedEngine =
     initialEngine\<lparr>recentHeartRates := [150, 150, 150], sampleBuffer := replicate 400 20000,
       batchesReceived := 4, fingerDetectedState := True,
       lastDisplayedValue := ''Acquiring signal'', isAcquiring := True,
       acquisitionStartTime := 2000, isStable := True\<rparr>"
  unfolding regainedEngine_def lostEngine_eval by code_simp

text \<open>
  Claim C4 has the history of recent heart rates start empty at every transition of the
  contact from false to true. \<open>resetState\<close>, which is to reset all state variables, and
  the start of an acquisition both leave \<open>recentHeartRates\<close> as it is. After contact is
  lost with three readings of 150 in the history, the first batch of the next acquisition
  (100 samples, no rate computed) still holds them and is stable at once; at its fifth
  batch, still with no rate computed, the engine reports 125 beats per minute, tracking.
\<close>

theorem C4_history_survives_reacquisition:
  "\<not> fingerDetectedState lostEngine
   \<and> fingerDetectedState (snd (processHeartRate lostEngine 2000 goodBatch))
   \<and> batchesReceived (snd (processHeartRate lostEngine 2000 goodBatch)) = 1
   \<and> recentHeartRates (snd (processHeartRate lostEngine 2000 goodBatch)) = [150, 150, 150]
   \<and> isStable (snd (processHeartRate lostEngine 2000 goodBatch))
   \<and> map_option dbg_calculatedRate (debug (fst (processHeartRate lostEngine 2000 goodBatch)))
       = Some 0
   \<and> map_option dbg_finalRate (debug (fst (processHeartRate lostEngine 2000 goodBatch)))
       = Some 125
   \<and> map_option dbg_calculatedRate (debug (fst (processHeartRate regainedEngine 4000 goodBatch)))
       = Some 0
   \<and> heartRate (fst (processHeartRate regainedEngine 4000 goodBatch)) = 125
   \<and> phase (fst (processHeartRate regainedEngine 4000 goodBatch)) = ''tracking''"
  unfolding lostEngine_eval regainedEngine_eval by code_simp

end
